theory Spec2Isabelle
  imports Complex_Main "HOL-Library.Word" "HOL-Library.Sublist"
begin

section \<open>JavaScript strings\<close>

text \<open>
  A JavaScript string is a finite sequence of 16-bit code units. \<open>includes\<close>,
  \<open>indexOf\<close>, \<open>replace\<close>, \<open>substring\<close>, \<open>length\<close> and regular expressions
  without the \<open>u\<close> flag all work on code units, so the model is a list of 16-bit words.
  \<open>asc\<close> embeds an ASCII literal of the source.
\<close>

type_synonym code_unit = "16 word"
type_synonym jsstring = "code_unit list"

definition asc :: "string \<Rightarrow> jsstring" where
  "asc s = map (\<lambda>c. of_nat (of_char c)) s"

subsection \<open>\<open>indexOf\<close> and \<open>includes\<close>\<close>

text \<open>
  \<open>index_from pat s k\<close> scans \<open>s\<close> from the left; \<open>k\<close> is the index of the head of
  \<open>s\<close> in the whole string. \<open>None\<close> stands for the result \<open>-1\<close>.
\<close>

fun index_from :: "'a list \<Rightarrow> 'a list \<Rightarrow> nat \<Rightarrow> nat option" where
  "index_from pat [] k = (if pat = [] then Some k else None)"
| "index_from pat (c # cs) k =
     (if prefix pat (c # cs) then Some k else index_from pat cs (Suc k))"

definition indexOf :: "'a list \<Rightarrow> 'a list \<Rightarrow> nat option" where
  "indexOf s pat = index_from pat s 0"

definition includes_str :: "'a list \<Rightarrow> 'a list \<Rightarrow> bool" where
  "includes_str s pat = (indexOf s pat \<noteq> None)"

subsection \<open>\<open>String.prototype.replace\<close> with a string pattern\<close>

text \<open>
  The replacement text goes through the substitution template of the language
  (GetSubstitution) with no capture groups: \<open>$$\<close> is a dollar sign, \<open>$&\<close> the matched
  text, \<open>$`\<close> the text before the match and \<open>$'\<close> the text after it. Every other
  code unit stands for itself, also a dollar sign that something else follows: with no
  capture groups, \<open>$1\<close> and \<open>$<\<close> are plain text.
\<close>

definition dollar :: code_unit where "dollar = 0x24"
definition ampersand :: code_unit where "ampersand = 0x26"
definition apostrophe :: code_unit where "apostrophe = 0x27"
definition backtick :: code_unit where "backtick = 0x60"

fun get_substitution :: "jsstring \<Rightarrow> jsstring \<Rightarrow> jsstring \<Rightarrow> jsstring \<Rightarrow> jsstring" where
  "get_substitution matched preceding following [] = []"
| "get_substitution matched preceding following [c] = [c]"
| "get_substitution matched preceding following (c # d # t) =
     (if c = dollar \<and> d = dollar
        then dollar # get_substitution matched preceding following t
      else if c = dollar \<and> d = backtick
        then preceding @ get_substitution matched preceding following t
      else if c = dollar \<and> d = ampersand
        then matched @ get_substitution matched preceding following t
      else if c = dollar \<and> d = apostrophe
        then following @ get_substitution matched preceding following t
      else c # get_substitution matched preceding following (d # t))"

text \<open>\<open>s.replace(pat, rep)\<close>: only the first occurrence of \<open>pat\<close> is replaced.\<close>

definition replace_string :: "jsstring \<Rightarrow> jsstring \<Rightarrow> jsstring \<Rightarrow> jsstring" where
  "replace_string s pat rep =
     (case indexOf s pat of
        None \<Rightarrow> s
      | Some pos \<Rightarrow>
          (let preceding = take pos s;
               following = drop (pos + length pat) s
           in preceding @ get_substitution pat preceding following rep @ following))"

section \<open>Reply Composer: the attribution footer\<close>

text \<open>The constants of \<open>generateReply\<close> (source lines 270-283).\<close>

definition footer :: jsstring where
  "footer = asc (concat
     [''<br><br>powered by<br>'',
      ''<a href=\"https://inbound.new/?utm_source=inbound-security&utm_campaign=susbound\">'',
      ''<img src=\"https://inbound.new/images/inbound-wordmark.png\" alt=\"Inbound\">'',
      ''</a>''])"

definition body_close :: jsstring where "body_close = asc ''</body>''"
definition html_close :: jsstring where "html_close = asc ''</html>''"

text \<open>
  The post-processing of the model's text in \<open>generateReply\<close>:
  \<^verbatim>\<open>
  let replyHtml = text;
  if (replyHtml.includes('</body>')) {
    replyHtml = replyHtml.replace('</body>', footer + '</body>');
  } else if (replyHtml.includes('</html>')) {
    replyHtml = replyHtml.replace('</html>', footer + '</html>');
  } else {
    replyHtml = replyHtml + footer;
  }
  \<close>
\<close>

definition appendFooter :: "jsstring \<Rightarrow> jsstring" where
  "appendFooter text =
     (if includes_str text body_close then replace_string text body_close (footer @ body_close)
      else if includes_str text html_close then replace_string text html_close (footer @ html_close)
      else text @ footer)"

text \<open>
  The position the specification gives for a first occurrence: \<open>pat\<close> starts at index
  \<open>i\<close> of \<open>s\<close> and at no smaller index.
\<close>

definition first_occurrence_at :: "'a list \<Rightarrow> 'a list \<Rightarrow> nat \<Rightarrow> bool" where
  "first_occurrence_at pat s i =
     (i \<le> length s \<and> prefix pat (drop i s) \<and> (\<forall>j \<in> set [0..<i]. \<not> prefix pat (drop j s)))"

section \<open>Regular expressions of the source\<close>

text \<open>
  The regular expressions of \<open>sendReply\<close> are sequences of items, each a literal code
  unit or a negated one-character class, optionally under a greedy star:
  \<open>/<[^>]*>/\<close> and the literals \<open>/&nbsp;/\<close>, \<open>/&amp;/\<close>, \<open>/&lt;/\<close>, \<open>/&gt;/\<close>,
  \<open>/&quot;/\<close>. They have no capture groups, and a negated class matches line
  terminators too.
\<close>

datatype char_class = Is code_unit | IsNot code_unit

datatype atom = One char_class | Star char_class

type_synonym regex = "atom list"

fun in_class :: "code_unit \<Rightarrow> char_class \<Rightarrow> bool" where
  "in_class c (Is d) = (c = d)"
| "in_class c (IsNot d) = (c \<noteq> d)"

text \<open>
  \<open>rmatch re s\<close> matches \<open>re\<close> at the head of \<open>s\<close> as a backtracking matcher does and
  returns what is left of \<open>s\<close> after the match. A star first takes as many code units
  as it can and gives them back one at a time while the rest of the expression fails.
\<close>

fun rmatch :: "regex \<Rightarrow> jsstring \<Rightarrow> jsstring option" where
  "rmatch [] s = Some s"
| "rmatch (One cls # re) [] = None"
| "rmatch (One cls # re) (c # cs) = (if in_class c cls then rmatch re cs else None)"
| "rmatch (Star cls # re) [] = rmatch re []"
| "rmatch (Star cls # re) (c # cs) =
     (if in_class c cls
      then (case rmatch (Star cls # re) cs of
              Some rest \<Rightarrow> Some rest
            | None \<Rightarrow> rmatch re (c # cs))
      else rmatch re (c # cs))"

definition literal :: "string \<Rightarrow> regex" where
  "literal s = map (\<lambda>c. One (Is c)) (asc s)"

definition less_than_sign :: code_unit where "less_than_sign = 0x3C"
definition greater_than_sign :: code_unit where "greater_than_sign = 0x3E"

definition tag_regex :: regex where
  "tag_regex = [One (Is less_than_sign), Star (IsNot greater_than_sign), One (Is greater_than_sign)]"

text \<open>
  \<open>s.replace(re, rep)\<close> with the flag \<open>g\<close>. The search runs from the left; \<open>preceding\<close> is
  the part of the string already passed. After a match the search goes on behind it;
  after an empty match it moves one code unit on, which is copied. Each match is
  replaced by the substitution template of \<open>rep\<close>.
\<close>

function replace_all_from :: "regex \<Rightarrow> jsstring \<Rightarrow> jsstring \<Rightarrow> jsstring \<Rightarrow> jsstring" where
  "replace_all_from re rep preceding [] =
     (case rmatch re [] of
        None \<Rightarrow> []
      | Some rest \<Rightarrow> get_substitution [] preceding [] rep)"
| "replace_all_from re rep preceding (c # cs) =
     (case rmatch re (c # cs) of
        None \<Rightarrow> c # replace_all_from re rep (preceding @ [c]) cs
      | Some rest \<Rightarrow>
          (if length rest < Suc (length cs)
           then get_substitution (take (Suc (length cs) - length rest) (c # cs)) preceding rest rep
                @ replace_all_from re rep
                    (preceding @ take (Suc (length cs) - length rest) (c # cs)) rest
           else get_substitution [] preceding (c # cs) rep
                @ c # replace_all_from re rep (preceding @ [c]) cs))"
  by pat_completeness auto
termination
  by (relation "measure (\<lambda>(re, rep, preceding, s). length s)") auto

definition replace_all :: "jsstring \<Rightarrow> regex \<Rightarrow> jsstring \<Rightarrow> jsstring" where
  "replace_all s re rep = replace_all_from re rep [] s"

subsection \<open>\<open>trim\<close>\<close>

text \<open>The white space and line terminator code units that \<open>trim\<close> removes.\<close>

definition is_white_space :: "code_unit \<Rightarrow> bool" where
  "is_white_space c =
     (c = 0x9 \<or> c = 0xA \<or> c = 0xB \<or> c = 0xC \<or> c = 0xD \<or> c = 0x20 \<or> c = 0xA0
      \<or> c = 0x1680 \<or> (0x2000 \<le> c \<and> c \<le> 0x200A) \<or> c = 0x2028 \<or> c = 0x2029
      \<or> c = 0x202F \<or> c = 0x205F \<or> c = 0x3000 \<or> c = 0xFEFF)"

definition trim :: "jsstring \<Rightarrow> jsstring" where
  "trim s = rev (dropWhile is_white_space (rev (dropWhile is_white_space s)))"

section \<open>Delivery: the plain-text projection\<close>

text \<open>
  \<^verbatim>\<open>
  const replyText = replyHtml
    .replace(/<[^>]*>/g, '')
    .replace(/&nbsp;/g, ' ')
    .replace(/&amp;/g, '&')
    .replace(/&lt;/g, '<')
    .replace(/&gt;/g, '>')
    .replace(/&quot;/g, '"')
    .trim();
  \<close>
\<close>

definition replyText_of :: "jsstring \<Rightarrow> jsstring" where
  "replyText_of replyHtml =
     trim
      (replace_all
        (replace_all
          (replace_all
            (replace_all
              (replace_all
                (replace_all replyHtml tag_regex [])
                (literal ''&nbsp;'') (asc '' ''))
              (literal ''&amp;'') (asc ''&''))
            (literal ''&lt;'') (asc ''<''))
          (literal ''&gt;'') (asc ''>''))
        (literal ''&quot;'') (asc ''\"''))"

subsection \<open>The projection as the specification words it\<close>

text \<open>
  Removing the tag-delimited substrings: a tag is the text from a \<open><\<close> to the next
  \<open>>\<close>; a \<open><\<close> that no \<open>>\<close> follows is kept.
\<close>

function spec_strip_tags :: "jsstring \<Rightarrow> jsstring" where
  "spec_strip_tags [] = []"
| "spec_strip_tags (c # cs) =
     (if c = less_than_sign \<and> greater_than_sign \<in> set cs
      then spec_strip_tags (tl (dropWhile (\<lambda>x. x \<noteq> greater_than_sign) cs))
      else c # spec_strip_tags cs)"
  by pat_completeness auto
termination
  by (relation "measure length")
     (auto simp: less_Suc_eq_le intro: le_trans[OF diff_le_self length_dropWhile_le])

text \<open>Replacing every occurrence of one entity, from the left.\<close>

function spec_unescape :: "jsstring \<Rightarrow> jsstring \<Rightarrow> jsstring \<Rightarrow> jsstring" where
  "spec_unescape entity rep [] = []"
| "spec_unescape entity rep (c # cs) =
     (if entity \<noteq> [] \<and> prefix entity (c # cs)
      then rep @ spec_unescape entity rep (drop (length entity) (c # cs))
      else c # spec_unescape entity rep cs)"
  by pat_completeness auto
termination
  by (relation "measure (\<lambda>(entity, rep, s). length s)") (auto simp: neq_Nil_conv)

text \<open>
  Strip and unescape, with nothing else changed: the five entities in the order the
  specification lists them.
\<close>

definition spec_plain_text :: "jsstring \<Rightarrow> jsstring" where
  "spec_plain_text html =
     spec_unescape (asc ''&quot;'') (asc ''\"'')
      (spec_unescape (asc ''&gt;'') (asc ''>'')
        (spec_unescape (asc ''&lt;'') (asc ''<'')
          (spec_unescape (asc ''&amp;'') (asc ''&'')
            (spec_unescape (asc ''&nbsp;'') (asc '' '')
              (spec_strip_tags html)))))"

section \<open>Values of the runtime\<close>

text \<open>
  A number is a double: not-a-number, an infinity, or a finite value, kept as the real
  number it denotes. Only comparisons of numbers are modelled; arithmetic and printing
  of doubles are parameters of the model.
\<close>

datatype jsnumber = NaN | PosInfinity | NegInfinity | Finite real

datatype json =
    JNull
  | JBool bool
  | JNumber jsnumber
  | JString jsstring
  | JArray "json list"
  | JObject "(jsstring \<times> json) list"

text \<open>Exceptions, as values.\<close>

datatype exn =
    ModelCallError jsstring  \<comment> \<open>thrown by the model call: network, rate limit\<close>
  | NoObjectGenerated  \<comment> \<open>thrown by \<open>generateObject\<close>: the output fails the schema\<close>
  | Error jsstring  \<comment> \<open>\<open>new Error(message)\<close>\<close>
  | TypeError  \<comment> \<open>a property read on \<open>null\<close> or \<open>undefined\<close>\<close>
  | BodyError  \<comment> \<open>thrown by \<open>request.json()\<close>: the body is not JSON\<close>
  | StartError  \<comment> \<open>thrown by \<open>start\<close>\<close>

text \<open>
  \<open>a?.f\<close> is \<open>undefined\<close> when \<open>a\<close> is \<open>null\<close> or \<open>undefined\<close>, both \<open>None\<close> here.
  \<open>a || d\<close> is \<open>d\<close> when \<open>a\<close> is falsy: for a string, when it is \<open>undefined\<close>,
  \<open>null\<close> or empty; for an object, when it is \<open>undefined\<close> or \<open>null\<close>.
\<close>

definition opt_chain :: "'a option \<Rightarrow> ('a \<Rightarrow> 'b option) \<Rightarrow> 'b option" where
  "opt_chain a f = (case a of None \<Rightarrow> None | Some x \<Rightarrow> f x)"

definition string_truthy :: "jsstring option \<Rightarrow> bool" where
  "string_truthy a = (case a of None \<Rightarrow> False | Some s \<Rightarrow> s \<noteq> [])"

definition or_option :: "jsstring option \<Rightarrow> jsstring option \<Rightarrow> jsstring option" where
  "or_option a b = (if string_truthy a then a else b)"

definition or_string :: "jsstring option \<Rightarrow> jsstring \<Rightarrow> jsstring" where
  "or_string a d = (case a of None \<Rightarrow> d | Some s \<Rightarrow> if s = [] then d else s)"

definition or_object :: "'a option \<Rightarrow> 'a \<Rightarrow> 'a" where
  "or_object a d = (case a of None \<Rightarrow> d | Some x \<Rightarrow> x)"

section \<open>The inbound payload\<close>

text \<open>
  The fields of \<open>InboundWebhookPayload\<close> that the workflow reads. A field that may be
  \<open>null\<close>, \<open>undefined\<close> or missing is an option. The header mapping is an object,
  kept as its list of properties.
\<close>

type_synonym headers = "(jsstring \<times> json) list"

record address =
  addr_text :: "jsstring option"

record parsed_data =
  raw :: "jsstring option"
  headers :: "headers option"
  htmlBody :: "jsstring option"
  textBody :: "jsstring option"

record cleaned_content =
  cleaned_html :: "jsstring option"
  cleaned_text :: "jsstring option"

record email =
  email_id :: jsstring
  email_from :: "address option"
  email_to :: "address option"
  subject :: "jsstring option"
  parsedData :: "parsed_data option"
  cleanedContent :: "cleaned_content option"

record payload =
  event :: jsstring
  timestamp :: jsstring
  email :: email

section \<open>Classifier: the schema of the detection result\<close>

record detection =
  isSpam :: bool
  confidence :: jsnumber
  reasoning :: jsstring
  references :: "jsstring list"

text \<open>
  Modelled from the spec: the validators of the schema library and \<open>generateObject\<close> of
  the model library are not in the source tree. A validator decodes a value or fails;
  \<open>z.number()\<close> takes a number that is not not-a-number, \<open>min\<close> and \<open>max\<close> are
  inclusive bounds, \<open>z.array\<close> validates every element, and \<open>z.object\<close> reads each
  declared property and drops the others.
\<close>

definition z_boolean :: "json \<Rightarrow> bool option" where
  "z_boolean j = (case j of JBool b \<Rightarrow> Some b | _ \<Rightarrow> None)"

definition z_number :: "json \<Rightarrow> jsnumber option" where
  "z_number j = (case j of JNumber n \<Rightarrow> (if n = NaN then None else Some n) | _ \<Rightarrow> None)"

fun number_ge :: "jsnumber \<Rightarrow> real \<Rightarrow> bool" where
  "number_ge NaN b = False"
| "number_ge PosInfinity b = True"
| "number_ge NegInfinity b = False"
| "number_ge (Finite x) b = (b \<le> x)"

fun number_le :: "jsnumber \<Rightarrow> real \<Rightarrow> bool" where
  "number_le NaN b = False"
| "number_le PosInfinity b = False"
| "number_le NegInfinity b = True"
| "number_le (Finite x) b = (x \<le> b)"

definition z_min :: "real \<Rightarrow> (json \<Rightarrow> jsnumber option) \<Rightarrow> json \<Rightarrow> jsnumber option" where
  "z_min b v j = (case v j of None \<Rightarrow> None | Some n \<Rightarrow> if number_ge n b then Some n else None)"

definition z_max :: "real \<Rightarrow> (json \<Rightarrow> jsnumber option) \<Rightarrow> json \<Rightarrow> jsnumber option" where
  "z_max b v j = (case v j of None \<Rightarrow> None | Some n \<Rightarrow> if number_le n b then Some n else None)"

definition z_string :: "json \<Rightarrow> jsstring option" where
  "z_string j = (case j of JString s \<Rightarrow> Some s | _ \<Rightarrow> None)"

fun all_some :: "'a option list \<Rightarrow> 'a list option" where
  "all_some [] = Some []"
| "all_some (None # xs) = None"
| "all_some (Some x # xs) = (case all_some xs of None \<Rightarrow> None | Some ys \<Rightarrow> Some (x # ys))"

definition z_array :: "(json \<Rightarrow> 'a option) \<Rightarrow> json \<Rightarrow> 'a list option" where
  "z_array v j = (case j of JArray xs \<Rightarrow> all_some (map v xs) | _ \<Rightarrow> None)"

text \<open>A property of an object that is to be validated; a missing property fails.\<close>

definition z_property :: "headers \<Rightarrow> string \<Rightarrow> (json \<Rightarrow> 'a option) \<Rightarrow> 'a option" where
  "z_property props key v = (case map_of props (asc key) of None \<Rightarrow> None | Some j \<Rightarrow> v j)"

text \<open>
  \<^verbatim>\<open>
  const spamDetectionSchema = z.object({
    isSpam: z.boolean(),
    confidence: z.number().min(0).max(1),
    reasoning: z.string(),
    references: z.array(z.string()),
  });
  \<close>
\<close>

definition spamDetectionSchema :: "json \<Rightarrow> detection option" where
  "spamDetectionSchema j =
     (case j of
        JObject props \<Rightarrow>
          (case z_property props ''isSpam'' z_boolean of
             None \<Rightarrow> None
           | Some b \<Rightarrow>
          (case z_property props ''confidence'' (z_max 1 (z_min 0 z_number)) of
             None \<Rightarrow> None
           | Some c \<Rightarrow>
          (case z_property props ''reasoning'' z_string of
             None \<Rightarrow> None
           | Some r \<Rightarrow>
          (case z_property props ''references'' (z_array z_string) of
             None \<Rightarrow> None
           | Some refs \<Rightarrow>
               Some \<lparr>isSpam = b, confidence = c, reasoning = r, references = refs\<rparr>))))
      | _ \<Rightarrow> None)"

text \<open>
  Modelled from the spec: \<open>generateObject\<close> itself. The model's answer is validated
  against the schema; the call returns the decoded object or throws.
\<close>

definition generateObject ::
  "(json \<Rightarrow> 'a option) \<Rightarrow> (jsstring \<Rightarrow> exn + json) \<Rightarrow> jsstring \<Rightarrow> exn + 'a" where
  "generateObject schema model prompt =
     (case model prompt of
        Inl e \<Rightarrow> Inl e
      | Inr j \<Rightarrow> (case schema j of None \<Rightarrow> Inl NoObjectGenerated | Some obj \<Rightarrow> Inr obj))"

section \<open>The prompts\<close>

text \<open>
  The fixed text of the two template literals of the source, cut at the
  interpolations and, to keep the lines short, inside the lines.
\<close>

definition analysis_prompt_1 :: jsstring where
  "analysis_prompt_1 = asc (concat
     [''You are an advanced email security analyst. A user has '',
      ''forwarded the following email message to us because they want '',
      ''to know if it is safe to trust. Your job is to analyze this '',
      ''email and determine if it is spam, phishing, malicious, or '',
      ''safe.\<newline>'',
      ''\<newline>'',
      ''CONTEXT: This email was forwarded to our security analysis '',
      ''service by a user who received it and is uncertain about its '',
      ''legitimacy. The user is asking for your expert evaluation to '',
      ''help them decide whether they can safely interact with this '',
      ''email.\<newline>'',
      ''\<newline>'',
      ''CRITICAL: Examine all aspects of the email including headers, '',
      ''content, structure, and metadata patterns to provide a '',
      ''comprehensive safety assessment.\<newline>'',
      ''\<newline>'',
      ''Email Details:\<newline>'',
      ''- From: ''])"

definition analysis_prompt_2 :: jsstring where
  "analysis_prompt_2 = asc (concat
     [''\<newline>'',
      ''- To: ''])"

definition analysis_prompt_3 :: jsstring where
  "analysis_prompt_3 = asc (concat
     [''\<newline>'',
      ''- Subject: ''])"

definition analysis_prompt_4 :: jsstring where
  "analysis_prompt_4 = asc (concat
     [''\<newline>'',
      ''\<newline>'',
      ''Email Headers (raw):\<newline>''])"

definition analysis_prompt_5 :: jsstring where
  "analysis_prompt_5 = asc (concat
     [''\<newline>'',
      ''\<newline>'',
      ''Email Raw Content:\<newline>''])"

definition analysis_prompt_6 :: jsstring where
  "analysis_prompt_6 = asc (concat
     [''\<newline>'',
      ''\<newline>'',
      ''Your task:\<newline>'',
      ''1. Examine the email headers for suspicious patterns (SPF, '',
      ''DKIM, DMARC failures, suspicious routing, etc.)\<newline>'',
      ''2. Analyze the email content for phishing indicators, '',
      ''suspicious links, urgency tac'',
      ''tics, or malicious attachments\<newline>'',
      ''3. Check for social engineering patterns, impersonation '',
      ''attempts, or fraudulent requests\<newline>'',
      ''4. Evaluate the overall email structure and metadata for '',
      ''anomalies\<newline>'',
      ''5. Provide a confidence score based on the strength and number '',
      ''of indicators found\<newline>'',
      ''6. List specific references and indicators that led to your '',
      ''conclusion\<newline>'',
      ''\<newline>'',
      ''Consider legitimate emails may have:\<newline>'',
      ''- Professional language and proper formatting\<newline>'',
      ''- Verified sender authentication (SPF/DKIM/DMARC)\<newline>'',
      ''- No suspicious links or requests for sensitive information\<newline>'',
      ''- Appropriate subject-to-content correlation\<newline>'',
      ''\<newline>'',
      ''Return your analysis with:\<newline>'',
      ''- isSpam: true if the email is spam/malicious, false if it '',
      ''appears legitimate\<newline>'',
      ''- confidence: A score from 0 to 1 indicating how confident you '',
      ''are in the classification\<newline>'',
      ''- reasoning: A detailed explanation of your analysis\<newline>'',
      ''- references: A list of specific indicators, suspicious '',
      ''patterns, or concerns found''])"

definition reply_prompt_1 :: jsstring where
  "reply_prompt_1 = asc (concat
     [''You are an email security assistant providing a concise safety '',
      ''evaluation. A user forwarded an email to our service asking '',
      ''whether it is safe to trust.\<newline>'',
      ''\<newline>'',
      ''CONTEXT: This email was forwarded to us by a user who wants to '',
      ''know if they can safely interact with it. Your response will be '',
      ''sent back to help the user make an informed decision about the '',
      ''email's safety.\<newline>'',
      ''\<newline>'',
      ''Email Information:\<newline>'',
      ''- From: ''])"

definition reply_prompt_2 :: jsstring where
  "reply_prompt_2 = asc (concat
     [''\<newline>'',
      ''- Subject: ''])"

definition reply_prompt_3 :: jsstring where
  "reply_prompt_3 = asc (concat
     [''\<newline>'',
      ''\<newline>'',
      ''Email Content:\<newline>''])"

definition reply_prompt_4 :: jsstring where
  "reply_prompt_4 = asc (concat
     [''\<newline>'',
      ''\<newline>'',
      ''Spam Detection Analysis:\<newline>'',
      ''- Classification: ''])"

definition reply_prompt_5 :: jsstring where
  "reply_prompt_5 = asc (concat
     [''\<newline>'',
      ''- Confidence Score: ''])"

definition reply_prompt_6 :: jsstring where
  "reply_prompt_6 = asc (concat
     [''%\<newline>'',
      ''- Key Concerns: ''])"

definition reply_prompt_7 :: jsstring where
  "reply_prompt_7 = asc (concat
     [''\<newline>'',
      ''\<newline>'',
      ''Generate a SHORT, CONCISE email reply (3-5 sentences maximum) '',
      ''that will be sent to the user. The reply should:\<newline>'',
      ''1. Acknowledge they forwarded the email for a safety check\<newline>'',
      ''2. Clearly state if the email is SAFE or UNSAFE\<newline>'',
      ''3. Provide a brief explanation (1-2 sentences) of the main '',
      ''finding\<newline>'',
      ''4. Give clear, actionable guidance (one sentence)\<newline>'',
      ''\<newline>'',
      ''IMPORTANT FORMATTING RULES:\<newline>'',
      ''- Write like a plaintext email - simple, professional, direct\<newline>'',
      ''- Use minimal HTML ONLY for code examples or technical terms '',
      ''(use <code> tags)\<newline>'',
      ''- NO fancy colors, styling, backgrounds, or visual elements\<newline>'',
      ''- NO complex HTML structure or tables\<newline>'',
      ''- CRITICAL: Use GENEROUS line breaks with <br><br> tags to make '',
      ''the email easy to read\<newline>'',
      ''- Add <br><br> after each sentence or thought to create visual '',
      ''spacing\<newline>'',
      ''- Add <br><br> between different sections/paragraphs\<newline>'',
      ''- Add <br><br> before the closing/signature\<newline>'',
      ''- The email should have plenty of white space - not be a dense '',
      ''block of text\<newline>'',
      ''- Keep it brief and to the point\<newline>'',
      ''\<newline>'',
      ''Format as HTML but make it look and read like a plaintext '',
      ''email. Use <br><br> liberally for readability. Example '',
      ''structure:\<newline>'',
      ''\<newline>'',
      ''<html>\<newline>'',
      ''<body>\<newline>'',
      ''\<newline>'',
      ''Hi,<br><br>\<newline>'',
      ''\<newline>'',
      ''Thanks for forwarding this email for review. This email appears '',
      ''[SAFE/UNSAFE - be clear].<br><br>\<newline>'',
      ''\<newline>'',
      ''[Brief 1-2 sentence explanation - add <br><br> after each '',
      ''sentence]<br><br>\<newline>'',
      ''\<newline>'',
      ''[One sentence guidance on what to do]<br><br>\<newline>'',
      ''\<newline>'',
      ''Best regards,<br>\<newline>'',
      ''Security Analysis\<newline>'',
      ''\<newline>'',
      ''</body>\<newline>'',
      ''</html>''])"


section \<open>The world outside the workflow\<close>

text \<open>
  The external calls and the operations of the runtime that are not modelled are
  parameters: the answer of the structured model call before validation, the answer of
  the text model call, the exception, if any, that the construction of the provider's
  client throws for a given API key, the answer of the email provider's reply call, the
  truth value and the string conversion of the provider's error value, the indented
  \<open>JSON.stringify\<close> of the header object, and the printing of the confidence as a
  percentage with one digit. \<open>'r\<close> is the provider's receipt and \<open>'e\<close> its error value.
  The calls that the workflow makes are appended to a log, in the order in which it
  makes them. Console output is left out; none of the values it reads can throw before
  the receipt is read.
\<close>

record reply_params =
  reply_from :: jsstring
  reply_html :: jsstring
  reply_text :: jsstring

record ('r, 'e) reply_response =
  data :: "'r option"
  error :: "'e option"

datatype call =
    GenerateObjectCall jsstring
  | GenerateTextCall jsstring
  | ReplyCall jsstring reply_params

record ('r, 'e) world =
  object_model :: "jsstring \<Rightarrow> exn + json"
  text_model :: "jsstring \<Rightarrow> exn + jsstring"
  new_Inbound :: "jsstring option \<Rightarrow> exn option"
  inbound_reply :: "jsstring \<Rightarrow> reply_params \<Rightarrow> ('r, 'e) reply_response"
  error_truthy :: "'e \<Rightarrow> bool"
  error_to_string :: "'e \<Rightarrow> jsstring"
  json_stringify :: "headers \<Rightarrow> jsstring"
  percent_toFixed1 :: "jsnumber \<Rightarrow> jsstring"

record process_env =
  INBOUND_API_KEY :: "jsstring option"
  INBOUND_REPLY_FROM :: "jsstring option"

section \<open>Classifier step\<close>

text \<open>The constants that \<open>analyzeEmailForSpam\<close> extracts (source lines 85-92).\<close>

record email_data =
  ed_rawEmail :: jsstring
  ed_headers :: headers
  ed_htmlBody :: jsstring
  ed_textBody :: jsstring
  ed_subject :: jsstring
  ed_from :: jsstring
  ed_to :: jsstring

definition extract_email_data :: "payload \<Rightarrow> email_data" where
  "extract_email_data payload =
     \<lparr>ed_rawEmail = or_string (opt_chain (parsedData (email payload)) raw) [],
      ed_headers = or_object (opt_chain (parsedData (email payload)) headers) [],
      ed_htmlBody = or_string (opt_chain (parsedData (email payload)) htmlBody) [],
      ed_textBody = or_string (opt_chain (parsedData (email payload)) textBody) [],
      ed_subject = or_string (subject (email payload)) [],
      ed_from = or_string (opt_chain (email_from (email payload)) addr_text) [],
      ed_to = or_string (opt_chain (email_to (email payload)) addr_text) []\<rparr>"

definition analysis_prompt :: "('r, 'e) world \<Rightarrow> email_data \<Rightarrow> jsstring" where
  "analysis_prompt w d =
     analysis_prompt_1 @ ed_from d @ analysis_prompt_2 @ ed_to d
     @ analysis_prompt_3 @ ed_subject d
     @ analysis_prompt_4 @ json_stringify w (ed_headers d)
     @ analysis_prompt_5 @ ed_rawEmail d @ analysis_prompt_6"

record detection_data =
  dd_detectionResult :: detection
  dd_emailId :: jsstring

definition analyzeEmailForSpam ::
  "('r, 'e) world \<Rightarrow> payload \<Rightarrow> call list \<Rightarrow> (exn + detection_data) \<times> call list" where
  "analyzeEmailForSpam w payload calls =
     (let prompt = analysis_prompt w (extract_email_data payload);
          calls1 = calls @ [GenerateObjectCall prompt]
      in case generateObject spamDetectionSchema (object_model w) prompt of
           Inl e \<Rightarrow> (Inl e, calls1)
         | Inr object \<Rightarrow>
             (Inr \<lparr>dd_detectionResult = object, dd_emailId = email_id (email payload)\<rparr>,
              calls1))"

section \<open>Reply Composer step\<close>

text \<open>\<open>s.substring(a, b)\<close>: the code units from the smaller index up to the larger.\<close>

definition substring :: "jsstring \<Rightarrow> nat \<Rightarrow> nat \<Rightarrow> jsstring" where
  "substring s a b = take (max a b - min a b) (drop (min a b) s)"

text \<open>\<open>xs.join(sep)\<close> for a list of strings.\<close>

fun join :: "jsstring \<Rightarrow> jsstring list \<Rightarrow> jsstring" where
  "join sep [] = []"
| "join sep [x] = x"
| "join sep (x # y # ys) = x @ sep @ join sep (y # ys)"

definition reply_textBody :: "payload \<Rightarrow> jsstring" where
  "reply_textBody payload =
     or_string
       (or_option (opt_chain (parsedData (email payload)) textBody)
                  (opt_chain (cleanedContent (email payload)) cleaned_text))
       []"

definition reply_prompt :: "('r, 'e) world \<Rightarrow> detection_data \<Rightarrow> payload \<Rightarrow> jsstring" where
  "reply_prompt w detectionData payload =
     (let textBody = reply_textBody payload;
          subject = or_string (subject (email payload)) [];
          from = or_string (opt_chain (email_from (email payload)) addr_text) []
      in reply_prompt_1 @ from @ reply_prompt_2 @ subject @ reply_prompt_3
         @ substring textBody 0 2000
         @ (if length textBody > 2000 then asc ''\<newline>... (truncated)'' else [])
         @ reply_prompt_4
         @ (if isSpam (dd_detectionResult detectionData)
            then asc ''SPAM/MALICIOUS'' else asc ''LEGITIMATE'')
         @ reply_prompt_5
         @ percent_toFixed1 w (confidence (dd_detectionResult detectionData))
         @ reply_prompt_6
         @ join (asc ''; '') (take 3 (references (dd_detectionResult detectionData)))
         @ reply_prompt_7)"

definition generateReply ::
  "('r, 'e) world \<Rightarrow> detection_data \<Rightarrow> payload \<Rightarrow> call list \<Rightarrow> (exn + jsstring) \<times> call list"
  where
  "generateReply w detectionData payload calls =
     (let prompt = reply_prompt w detectionData payload;
          calls1 = calls @ [GenerateTextCall prompt]
      in case text_model w prompt of
           Inl e \<Rightarrow> (Inl e, calls1)
         | Inr text \<Rightarrow> (Inr (appendFooter text), calls1))"

section \<open>Delivery step\<close>

definition default_from :: jsstring where
  "default_from = asc ''susdev@inbound.delivery''"

definition fromAddress_of :: "process_env \<Rightarrow> jsstring" where
  "fromAddress_of env = or_string (INBOUND_REPLY_FROM env) default_from"

definition reply_request :: "process_env \<Rightarrow> jsstring \<Rightarrow> reply_params" where
  "reply_request env replyHtml =
     \<lparr>reply_from = fromAddress_of env,
      reply_html = replyHtml,
      reply_text = replyText_of replyHtml\<rparr>"

text \<open>
  \<^verbatim>\<open>
  const inbound = new Inbound(process.env.INBOUND_API_KEY!);
  ...
  const { data, error } = await inbound.reply(emailId, {from: fromAddress, html: replyHtml, text: replyText});
  if (error) { throw new Error(`Failed to send reply: ${error}`); }
  return data!;
  \<close>
  The client is constructed first; when that throws, the step ends before any reply
  call. The receipt that is returned is \<open>undefined\<close> when the provider gave none.
\<close>

definition sendReply ::
  "('r, 'e) world \<Rightarrow> process_env \<Rightarrow> jsstring \<Rightarrow> jsstring \<Rightarrow> payload \<Rightarrow> call list
     \<Rightarrow> (exn + 'r option) \<times> call list" where
  "sendReply w env emailId replyHtml payload calls =
     (case new_Inbound w (INBOUND_API_KEY env) of
        Some e \<Rightarrow> (Inl e, calls)
      | None \<Rightarrow>
          (let params = reply_request env replyHtml;
               calls1 = calls @ [ReplyCall emailId params];
               response = inbound_reply w emailId params
           in case error response of
                None \<Rightarrow> (Inr (data response), calls1)
              | Some err \<Rightarrow>
                  (if error_truthy w err
                   then (Inl (Error (asc ''Failed to send reply: '' @ error_to_string w err)),
                         calls1)
                   else (Inr (data response), calls1))))"

section \<open>Workflow orchestrator\<close>

record 'r workflow_result =
  success :: bool
  emailId :: jsstring
  detectionResult :: detection_data
  reply :: jsstring
  sendResult :: 'r

text \<open>
  The three steps in the order of the source, each awaited before the next begins; an
  exception of a step leaves the function at once. After the Delivery step the
  orchestrator reads \<open>sendResult.id\<close>, which throws when the receipt is \<open>undefined\<close>.
\<close>

definition scanAndReply ::
  "('r, 'e) world \<Rightarrow> process_env \<Rightarrow> payload \<Rightarrow> call list
     \<Rightarrow> (exn + 'r workflow_result) \<times> call list" where
  "scanAndReply w env payload calls =
     (case analyzeEmailForSpam w payload calls of
        (Inl e, calls1) \<Rightarrow> (Inl e, calls1)
      | (Inr detection, calls1) \<Rightarrow>
          (case generateReply w detection payload calls1 of
             (Inl e, calls2) \<Rightarrow> (Inl e, calls2)
           | (Inr replyHtml, calls2) \<Rightarrow>
               (case sendReply w env (email_id (email payload)) replyHtml payload calls2 of
                  (Inl e, calls3) \<Rightarrow> (Inl e, calls3)
                | (Inr None, calls3) \<Rightarrow> (Inl TypeError, calls3)
                | (Inr (Some receipt), calls3) \<Rightarrow>
                    (Inr \<lparr>success = True,
                          emailId = email_id (email payload),
                          detectionResult = detection,
                          reply = replyHtml,
                          sendResult = receipt\<rparr>,
                     calls3))))"

section \<open>Ingress: the webhook route\<close>

text \<open>
  Reading the property \<open>event\<close> or \<open>email\<close> of a parsed body: on \<open>null\<close> it throws,
  on an object it gives the property or \<open>undefined\<close> (\<open>None\<close>), and on a number, a
  string, a boolean or an array it gives \<open>undefined\<close>, as none of these has a property
  of either name.
\<close>

fun get_property :: "json \<Rightarrow> string \<Rightarrow> exn + json option" where
  "get_property JNull key = Inl TypeError"
| "get_property (JObject props) key = Inr (map_of props (asc key))"
| "get_property j key = Inr None"

fun number_truthy :: "jsnumber \<Rightarrow> bool" where
  "number_truthy NaN = False"
| "number_truthy (Finite x) = (x \<noteq> 0)"
| "number_truthy n = True"

fun truthy :: "json option \<Rightarrow> bool" where
  "truthy None = False"
| "truthy (Some JNull) = False"
| "truthy (Some (JBool b)) = b"
| "truthy (Some (JNumber n)) = number_truthy n"
| "truthy (Some (JString s)) = (s \<noteq> [])"
| "truthy (Some j) = True"

record http_response =
  status :: nat
  body :: json

definition json_response :: "json \<Rightarrow> nat \<Rightarrow> http_response" where
  "json_response b st = \<lparr>status = st, body = b\<rparr>"

definition invalid_payload_response :: http_response where
  "invalid_payload_response =
     json_response (JObject [(asc ''error'', JString (asc ''Invalid webhook payload''))]) 400"

definition started_response :: http_response where
  "started_response =
     json_response
       (JObject [(asc ''success'', JBool True),
                 (asc ''message'', JString (asc ''Webhook received and workflow started''))])
       200"

definition server_error_response :: http_response where
  "server_error_response =
     json_response (JObject [(asc ''error'', JString (asc ''Internal server error''))]) 500"

text \<open>
  The handler. \<open>request_json\<close> is the outcome of \<open>await request.json()\<close>; \<open>start\<close>
  tells whether scheduling the workflow with a payload throws. The second component of
  the result lists the payloads with which \<open>start\<close> was called. The body of the \<open>try\<close>
  is \<open>POST_try\<close>; the \<open>catch\<close> turns every exception into the server error.
\<close>

definition POST_try ::
  "(json \<Rightarrow> exn option) \<Rightarrow> exn + json \<Rightarrow> (exn + http_response) \<times> json list" where
  "POST_try start request_json =
     (case request_json of
        Inl e \<Rightarrow> (Inl e, [])
      | Inr payload \<Rightarrow>
          (case get_property payload ''event'' of
             Inl e \<Rightarrow> (Inl e, [])
           | Inr ev \<Rightarrow>
               if \<not> truthy ev then (Inr invalid_payload_response, [])
               else
                 (case get_property payload ''email'' of
                    Inl e \<Rightarrow> (Inl e, [])
                  | Inr em \<Rightarrow>
                      if \<not> truthy em then (Inr invalid_payload_response, [])
                      else
                        (case start payload of
                           Some e \<Rightarrow> (Inl e, [payload])
                         | None \<Rightarrow> (Inr started_response, [payload])))))"

definition POST :: "(json \<Rightarrow> exn option) \<Rightarrow> exn + json \<Rightarrow> http_response \<times> json list" where
  "POST start request_json =
     (case POST_try start request_json of
        (Inl e, started) \<Rightarrow> (server_error_response, started)
      | (Inr response, started) \<Rightarrow> (response, started))"

section \<open>Sample inputs\<close>

text \<open>
  A payload, environments and worlds on which the theorems below are instantiated. In
  every world the provider's error value is a string, true when it is not empty, and
  the construction of the client throws when the API key is \<open>undefined\<close> or empty.
  The first world answers every call with success, the second has a provider that
  reports an error, the third a provider whose error value is the empty string.
\<close>

record receipt =
  receipt_id :: jsstring
  receipt_messageId :: jsstring

definition sample_payload :: payload where
  "sample_payload =
     \<lparr>event = asc ''email.received'',
      timestamp = asc ''2025-01-01T00:00:00Z'',
      email =
        \<lparr>email_id = asc ''em_1'',
         email_from = Some \<lparr>addr_text = Some (asc ''user@example.com'')\<rparr>,
         email_to = None,
         subject = Some (asc ''Fwd: your account''),
         parsedData =
           Some \<lparr>raw = None,
                 headers = None,
                 htmlBody = Some [],
                 textBody = Some (asc ''Please verify your account'')\<rparr>,
         cleanedContent = None\<rparr>\<rparr>"

definition sample_env :: process_env where
  "sample_env = \<lparr>INBOUND_API_KEY = Some (asc ''key''), INBOUND_REPLY_FROM = None\<rparr>"

definition sample_object :: json where
  "sample_object =
     JObject
       [(asc ''isSpam'', JBool True),
        (asc ''confidence'', JNumber (Finite (92 / 100))),
        (asc ''reasoning'', JString (asc ''The sender fails SPF'')),
        (asc ''references'', JArray [JString (asc ''SPF fail''), JString (asc ''urgency language'')])]"

definition sample_receipt :: receipt where
  "sample_receipt = \<lparr>receipt_id = asc ''sent_1'', receipt_messageId = asc ''msg_1''\<rparr>"

definition sample_world :: "(receipt, jsstring) world" where
  "sample_world =
     \<lparr>object_model = (\<lambda>prompt. Inr sample_object),
      text_model = (\<lambda>prompt. Inr (asc ''<html><body>This email is UNSAFE.</body></html>'')),
      new_Inbound =
        (\<lambda>key. if string_truthy key then None else Some (Error (asc ''API key is required''))),
      inbound_reply = (\<lambda>eid params. \<lparr>data = Some sample_receipt, error = None\<rparr>),
      error_truthy = (\<lambda>e. e \<noteq> []),
      error_to_string = (\<lambda>e. e),
      json_stringify = (\<lambda>h. asc ''{}''),
      percent_toFixed1 = (\<lambda>n. asc ''92.0'')\<rparr>"

definition failing_world :: "(receipt, jsstring) world" where
  "failing_world =
     sample_world
       \<lparr>inbound_reply := (\<lambda>eid params. \<lparr>data = None, error = Some (asc ''Domain not verified'')\<rparr>)\<rparr>"

definition empty_error_world :: "(receipt, jsstring) world" where
  "empty_error_world =
     sample_world \<lparr>inbound_reply := (\<lambda>eid params. \<lparr>data = None, error = Some []\<rparr>)\<rparr>"

definition keyless_env :: process_env where
  "keyless_env = \<lparr>INBOUND_API_KEY = None, INBOUND_REPLY_FROM = None\<rparr>"

definition override_env :: process_env where
  "override_env =
     \<lparr>INBOUND_API_KEY = Some (asc ''key''),
      INBOUND_REPLY_FROM = Some (asc ''security@example.com'')\<rparr>"

definition empty_override_env :: process_env where
  "empty_override_env = \<lparr>INBOUND_API_KEY = Some (asc ''key''), INBOUND_REPLY_FROM = Some []\<rparr>"

text \<open>Two payloads whose text bodies agree on the first 2000 code units only.\<close>

definition long_payload :: "jsstring \<Rightarrow> payload" where
  "long_payload rest =
     sample_payload
       \<lparr>email := (email sample_payload)
          \<lparr>parsedData :=
             Some \<lparr>raw = None, headers = None, htmlBody = None,
                   textBody = Some (replicate 2000 0x61 @ rest)\<rparr>\<rparr>\<rparr>"

definition sample_detection :: detection_data where
  "sample_detection =
     \<lparr>dd_detectionResult =
        \<lparr>isSpam = True, confidence = Finite (92 / 100),
         reasoning = asc ''The sender fails SPF'',
         references = [asc ''SPF fail'', asc ''urgency language'']\<rparr>,
      dd_emailId = asc ''em_1''\<rparr>"

section \<open>Verified properties\<close>

subsection \<open>Lemmas: searching and replacing in strings\<close>

lemma index_from_Some:
  "index_from pat s k = Some i \<Longrightarrow> k \<le> i \<and> first_occurrence_at pat s (i - k)"
proof (induction s arbitrary: k)
  case Nil
  then show ?case by (auto simp: first_occurrence_at_def split: if_splits)
next
  case (Cons c cs)
  show ?case
  proof (cases "prefix pat (c # cs)")
    case True
    with Cons.prems show ?thesis by (simp add: first_occurrence_at_def)
  next
    case False
    with Cons.prems have r: "index_from pat cs (Suc k) = Some i" by simp
    from Cons.IH[OF r] have k: "Suc k \<le> i" and f: "first_occurrence_at pat cs (i - Suc k)" by auto
    have eq: "i - k = Suc (i - Suc k)" using k by simp
    have "\<forall>j \<in> set [0..<Suc (i - Suc k)]. \<not> prefix pat (drop j (c # cs))"
    proof
      fix j assume "j \<in> set [0..<Suc (i - Suc k)]"
      then have j: "j < Suc (i - Suc k)" by auto
      show "\<not> prefix pat (drop j (c # cs))"
      proof (cases j)
        case 0 with False show ?thesis by simp
      next
        case (Suc j')
        with j have "j' \<in> set [0..<i - Suc k]" by simp
        with f Suc show ?thesis by (simp add: first_occurrence_at_def)
      qed
    qed
    with f k show ?thesis unfolding eq by (simp add: first_occurrence_at_def)
  qed
qed

lemma index_from_None:
  "index_from pat s k = None \<Longrightarrow> j \<le> length s \<Longrightarrow> \<not> prefix pat (drop j s)"
proof (induction s arbitrary: k j)
  case Nil
  then show ?case by (auto split: if_splits)
next
  case (Cons c cs)
  from Cons.prems have np: "\<not> prefix pat (c # cs)" and r: "index_from pat cs (Suc k) = None"
    by (auto split: if_splits)
  show ?case
  proof (cases j)
    case 0 with np show ?thesis by simp
  next
    case (Suc j')
    with Cons.prems have "j' \<le> length cs" by simp
    from Cons.IH[OF r this] Suc show ?thesis by simp
  qed
qed

lemma sublist_iff_prefix_drop:
  "sublist pat s \<longleftrightarrow> (\<exists>j\<le>length s. prefix pat (drop j s))"
proof
  assume "sublist pat s"
  then obtain ps ss where "s = ps @ pat @ ss" by (auto simp: sublist_def)
  then have "length ps \<le> length s \<and> prefix pat (drop (length ps) s)" by simp
  then show "\<exists>j\<le>length s. prefix pat (drop j s)" by blast
next
  assume "\<exists>j\<le>length s. prefix pat (drop j s)"
  then obtain j where "prefix pat (drop j s)" by blast
  then obtain ss where "drop j s = pat @ ss" by (auto simp: prefix_def)
  then have "s = take j s @ pat @ ss" by (metis append_take_drop_id)
  then show "sublist pat s" unfolding sublist_def by blast
qed

lemma includes_str_iff_sublist: "includes_str s pat \<longleftrightarrow> sublist pat s"
proof
  assume "includes_str s pat"
  then obtain i where "index_from pat s 0 = Some i" by (auto simp: includes_str_def indexOf_def)
  from index_from_Some[OF this] show "sublist pat s"
    by (auto simp: first_occurrence_at_def sublist_iff_prefix_drop)
next
  assume s: "sublist pat s"
  show "includes_str s pat"
  proof (rule ccontr)
    assume "\<not> includes_str s pat"
    then have "index_from pat s 0 = None" by (simp add: includes_str_def indexOf_def)
    from index_from_None[OF this] s show False by (auto simp: sublist_iff_prefix_drop)
  qed
qed

lemma indexOf_first_occurrence:
  "indexOf s pat = Some i \<Longrightarrow> first_occurrence_at pat s i"
  using index_from_Some[of pat s 0 i] by (simp add: indexOf_def)

lemma get_substitution_plain:
  "dollar \<notin> set rep \<Longrightarrow> get_substitution matched before after rep = rep"
  by (induction matched before after rep rule: get_substitution.induct) auto

lemma replace_string_found:
  assumes "indexOf s pat = Some i" and "dollar \<notin> set rep"
  shows "replace_string s pat rep = take i s @ rep @ drop (i + length pat) s"
  using assms by (simp add: replace_string_def Let_def get_substitution_plain)

lemma drop_after_prefix:
  "prefix pat (drop i s) \<Longrightarrow> drop i s = pat @ drop (i + length pat) s"
proof -
  assume "prefix pat (drop i s)"
  then obtain zs where z: "drop i s = pat @ zs" by (auto simp: prefix_def)
  then have "drop (length pat) (drop i s) = zs" by simp
  then have "drop (i + length pat) s = zs" by (simp add: add.commute)
  with z show ?thesis by simp
qed

lemma footer_no_dollar: "dollar \<notin> set footer"
  by (simp add: footer_def asc_def dollar_def)

lemma closers_no_dollar: "dollar \<notin> set body_close" "dollar \<notin> set html_close"
  by (simp_all add: body_close_def html_close_def asc_def dollar_def)

lemma insert_before_first:
  assumes inc: "includes_str s pat" and nd: "dollar \<notin> set pat"
  shows "\<exists>i. first_occurrence_at pat s i \<and>
             replace_string s pat (footer @ pat) = take i s @ footer @ drop i s"
proof -
  from inc obtain i where i: "indexOf s pat = Some i" by (auto simp: includes_str_def)
  have f: "first_occurrence_at pat s i" by (rule indexOf_first_occurrence[OF i])
  then have d: "drop i s = pat @ drop (i + length pat) s"
    by (simp add: first_occurrence_at_def drop_after_prefix)
  have "replace_string s pat (footer @ pat) = take i s @ (footer @ pat) @ drop (i + length pat) s"
    by (rule replace_string_found[OF i]) (simp add: footer_no_dollar nd)
  with d f show ?thesis by auto
qed

lemma appendFooter_at_body:
  assumes i: "indexOf text body_close = Some i"
  shows "appendFooter text = take i text @ footer @ drop i text"
proof -
  have "first_occurrence_at body_close text i" by (rule indexOf_first_occurrence[OF i])
  then have d: "drop i text = body_close @ drop (i + length body_close) text"
    by (simp add: first_occurrence_at_def drop_after_prefix)
  have "replace_string text body_close (footer @ body_close) =
          take i text @ (footer @ body_close) @ drop (i + length body_close) text"
    by (rule replace_string_found[OF i]) (simp add: footer_no_dollar closers_no_dollar)
  with d i show ?thesis by (simp add: appendFooter_def includes_str_def)
qed

subsection \<open>Lemmas: the regular expressions and the projection\<close>

lemma rmatch_literal:
  "rmatch (map (\<lambda>c. One (Is c)) p) s = (if prefix p s then Some (drop (length p) s) else None)"
proof (induction p arbitrary: s)
  case Nil
  show ?case by simp
next
  case (Cons a p)
  show ?case by (cases s) (simp_all add: Cons.IH)
qed

lemma rmatch_until_greater_than:
  "rmatch [Star (IsNot greater_than_sign), One (Is greater_than_sign)] s =
     (if greater_than_sign \<in> set s
      then Some (tl (dropWhile (\<lambda>x. x \<noteq> greater_than_sign) s)) else None)"
  by (induction s) auto

lemma rmatch_tag:
  "rmatch tag_regex [] = None"
  "rmatch tag_regex (c # cs) =
     (if c = less_than_sign \<and> greater_than_sign \<in> set cs
      then Some (tl (dropWhile (\<lambda>x. x \<noteq> greater_than_sign) cs)) else None)"
  using rmatch_until_greater_than[of cs] by (auto simp: tag_regex_def)

lemma length_tl_dropWhile: "length (dropWhile P xs) - Suc 0 < Suc (length xs)"
  using length_dropWhile_le[of P xs] by simp

lemma strip_tags_refines:
  "replace_all_from tag_regex [] preceding s = spec_strip_tags s"
proof (induction s arbitrary: preceding rule: spec_strip_tags.induct)
  case 1
  show ?case by (simp add: rmatch_tag)
next
  case (2 c cs)
  show ?case
  proof (cases "c = less_than_sign \<and> greater_than_sign \<in> set cs")
    case True
    then show ?thesis using "2.IH"(1) by (simp add: rmatch_tag length_tl_dropWhile)
  next
    case False
    then have m: "rmatch tag_regex (c # cs) = None" by (simp add: rmatch_tag)
    from False have "spec_strip_tags (c # cs) = c # spec_strip_tags cs" by auto
    with m "2.IH"(2)[OF False] show ?thesis by simp
  qed
qed

lemma unescape_refines:
  assumes "p \<noteq> []" and "dollar \<notin> set rep"
  shows "replace_all_from (map (\<lambda>c. One (Is c)) p) rep preceding s = spec_unescape p rep s"
  using assms
proof (induction p rep s arbitrary: preceding rule: spec_unescape.induct)
  case (1 entity rep)
  then show ?case by (simp add: rmatch_literal)
next
  case (2 entity rep c cs)
  show ?case
  proof (cases "prefix entity (c # cs)")
    case True
    have l: "length entity \<le> Suc (length cs)" using True prefix_length_le by fastforce
    show ?thesis using True "2.prems" "2.IH"(1) l
      by (simp add: rmatch_literal get_substitution_plain) 
  next
    case False
    then have m: "rmatch (map (\<lambda>c. One (Is c)) entity) (c # cs) = None"
      by (simp add: rmatch_literal)
    from False have "spec_unescape entity rep (c # cs) = c # spec_unescape entity rep cs"
      by simp
    with m "2.IH"(2) "2.prems" False show ?thesis by simp
  qed
qed

lemma no_dollar_in_replacements:
  "dollar \<notin> set (asc '' '')" "dollar \<notin> set (asc ''&'')" "dollar \<notin> set (asc ''<'')"
  "dollar \<notin> set (asc ''>'')" "dollar \<notin> set (asc ''\"'')"
  by (simp_all add: asc_def dollar_def)

lemma replace_all_literal:
  assumes "s \<noteq> []" and "dollar \<notin> set rep"
  shows "replace_all html (literal s) rep = spec_unescape (asc s) rep html"
  using assms unescape_refines[of "asc s" rep "[]" html]
  by (simp add: replace_all_def literal_def asc_def)

lemma replyText_of_refines: "replyText_of html = trim (spec_plain_text html)"
  by (simp add: replyText_of_def spec_plain_text_def replace_all_literal
      no_dollar_in_replacements)
     (simp add: replace_all_def strip_tags_refines)

lemma entities_unescaped_in_order:
  "replyText_of (asc ''&amp;lt;'') = asc ''<''"
  by (simp add: replyText_of_def replace_all_def asc_def literal_def tag_regex_def trim_def
      is_white_space_def less_than_sign_def greater_than_sign_def dollar_def)

lemma trim_ends:
  assumes "trim s \<noteq> []"
  shows "\<not> is_white_space (hd (trim s))" and "\<not> is_white_space (last (trim s))"
proof -
  let ?t = "dropWhile is_white_space s"
  let ?u = "dropWhile is_white_space (rev ?t)"
  have tr: "trim s = rev ?u" by (simp add: trim_def)
  with assms have u: "?u \<noteq> []" by simp
  then have "\<not> is_white_space (hd ?u)" by (rule hd_dropWhile)
  then show "\<not> is_white_space (last (trim s))" using u by (simp add: tr last_rev)
  have t: "?t \<noteq> []"
  proof
    assume a: "?t = []"
    have "?u = dropWhile is_white_space (rev [])" by (simp only: a)
    with u show False by simp
  qed
  then have ht: "\<not> is_white_space (hd ?t)" by (rule hd_dropWhile)
  have "rev ?t = takeWhile is_white_space (rev ?t) @ ?u" by simp
  then have "?t = rev ?u @ rev (takeWhile is_white_space (rev ?t))"
    by (metis rev_append rev_rev_ident)
  then have "hd ?t = hd (rev ?u)" using u by (metis hd_append2 rev_is_Nil_conv)
  with ht show "\<not> is_white_space (hd (trim s))" by (simp add: tr)
qed

subsection \<open>Lemmas: the schema\<close>

lemma number_in_bounds:
  "number_ge n lo \<Longrightarrow> number_le n hi \<Longrightarrow> \<exists>c. n = Finite c \<and> lo \<le> c \<and> c \<le> hi"
  by (cases n) auto

lemma z_confidence:
  "z_max 1 (z_min 0 z_number) j = Some n \<Longrightarrow> \<exists>c. j = JNumber (Finite c) \<and> n = Finite c \<and> 0 \<le> c \<and> c \<le> 1"
  by (cases j) (auto simp: z_max_def z_min_def z_number_def split: if_splits option.splits
      dest: number_in_bounds)

lemma all_some_strings:
  "all_some (map z_string xs) = Some refs \<Longrightarrow> xs = map JString refs"
proof (induction xs arbitrary: refs)
  case Nil
  then show ?case by simp
next
  case (Cons x xs)
  then show ?case
    by (cases x) (auto simp: z_string_def split: option.splits)
qed

lemma z_array_strings: "z_array z_string j = Some refs \<Longrightarrow> j = JArray (map JString refs)"
  by (cases j) (auto simp: z_array_def dest: all_some_strings)

lemma z_boolean_Some: "z_boolean j = Some b \<Longrightarrow> j = JBool b"
  by (cases j) (auto simp: z_boolean_def)

lemma z_string_Some: "z_string j = Some s \<Longrightarrow> j = JString s"
  by (cases j) (auto simp: z_string_def)

lemma z_property_Some:
  "z_property props key v = Some x \<Longrightarrow> \<exists>j. map_of props (asc key) = Some j \<and> v j = Some x"
  by (auto simp: z_property_def split: option.splits)

lemma schema_conforms:
  assumes "spamDetectionSchema j = Some d"
  shows "\<exists>props b c r refs.
           j = JObject props \<and>
           map_of props (asc ''isSpam'') = Some (JBool b) \<and>
           map_of props (asc ''confidence'') = Some (JNumber (Finite c)) \<and> 0 \<le> c \<and> c \<le> 1 \<and>
           map_of props (asc ''reasoning'') = Some (JString r) \<and>
           map_of props (asc ''references'') = Some (JArray (map JString refs)) \<and>
           d = \<lparr>isSpam = b, confidence = Finite c, reasoning = r, references = refs\<rparr>"
proof -
  from assms obtain props where j: "j = JObject props"
    by (cases j) (auto simp: spamDetectionSchema_def)
  from assms j obtain b n r refs where
    b: "z_property props ''isSpam'' z_boolean = Some b" and
    n: "z_property props ''confidence'' (z_max 1 (z_min 0 z_number)) = Some n" and
    r: "z_property props ''reasoning'' z_string = Some r" and
    refs: "z_property props ''references'' (z_array z_string) = Some refs" and
    d: "d = \<lparr>isSpam = b, confidence = n, reasoning = r, references = refs\<rparr>"
    by (auto simp: spamDetectionSchema_def split: option.splits)
  from z_property_Some[OF b] z_boolean_Some
  have 1: "map_of props (asc ''isSpam'') = Some (JBool b)" by blast
  from z_property_Some[OF n] z_confidence
  obtain c where 2: "map_of props (asc ''confidence'') = Some (JNumber (Finite c))"
    and c: "n = Finite c" "0 \<le> c" "c \<le> 1" by blast
  from z_property_Some[OF r] z_string_Some
  have 3: "map_of props (asc ''reasoning'') = Some (JString r)" by blast
  from z_property_Some[OF refs] z_array_strings
  have 4: "map_of props (asc ''references'') = Some (JArray (map JString refs))" by blast
  from j 1 2 3 4 c d show ?thesis by blast
qed

subsection \<open>Lemmas: the steps and the orchestrator\<close>

lemma analyzeEmailForSpam_calls:
  "snd (analyzeEmailForSpam w p calls) =
     calls @ [GenerateObjectCall (analysis_prompt w (extract_email_data p))]"
  by (simp add: analyzeEmailForSpam_def Let_def split: sum.splits)

lemma analyzeEmailForSpam_result:
  "fst (analyzeEmailForSpam w p calls) =
     (case object_model w (analysis_prompt w (extract_email_data p)) of
        Inl e \<Rightarrow> Inl e
      | Inr j \<Rightarrow>
          (case spamDetectionSchema j of
             None \<Rightarrow> Inl NoObjectGenerated
           | Some obj \<Rightarrow> Inr \<lparr>dd_detectionResult = obj, dd_emailId = email_id (email p)\<rparr>))"
  by (simp add: analyzeEmailForSpam_def generateObject_def Let_def split: sum.splits option.splits)

lemma generateReply_calls:
  "snd (generateReply w d p calls) = calls @ [GenerateTextCall (reply_prompt w d p)]"
  by (simp add: generateReply_def Let_def split: sum.splits)

lemma generateReply_result:
  "fst (generateReply w d p calls) =
     (case text_model w (reply_prompt w d p) of
        Inl e \<Rightarrow> Inl e | Inr t \<Rightarrow> Inr (appendFooter t))"
  by (simp add: generateReply_def Let_def split: sum.splits)

lemma sendReply_calls:
  "snd (sendReply w env eid replyHtml payload calls) =
     (case new_Inbound w (INBOUND_API_KEY env) of
        None \<Rightarrow> calls @ [ReplyCall eid (reply_request env replyHtml)]
      | Some e \<Rightarrow> calls)"
  by (simp add: sendReply_def Let_def split: option.splits)

lemma sendReply_result:
  "fst (sendReply w env eid html p calls) =
     (case new_Inbound w (INBOUND_API_KEY env) of
        Some e \<Rightarrow> Inl e
      | None \<Rightarrow>
          (case error (inbound_reply w eid (reply_request env html)) of
             None \<Rightarrow> Inr (data (inbound_reply w eid (reply_request env html)))
           | Some err \<Rightarrow>
               if error_truthy w err
               then Inl (Error (asc ''Failed to send reply: '' @ error_to_string w err))
               else Inr (data (inbound_reply w eid (reply_request env html)))))"
  by (simp add: sendReply_def Let_def split: option.splits)

lemma scanAndReply_unfold:
  "scanAndReply w env p calls =
     (case fst (analyzeEmailForSpam w p calls) of
        Inl e \<Rightarrow> (Inl e, snd (analyzeEmailForSpam w p calls))
      | Inr d \<Rightarrow>
          (case fst (generateReply w d p (snd (analyzeEmailForSpam w p calls))) of
             Inl e \<Rightarrow> (Inl e, snd (generateReply w d p (snd (analyzeEmailForSpam w p calls))))
           | Inr html \<Rightarrow>
               (case fst (sendReply w env (email_id (email p)) html p
                            (snd (generateReply w d p (snd (analyzeEmailForSpam w p calls))))) of
                  Inl e \<Rightarrow>
                    (Inl e, snd (sendReply w env (email_id (email p)) html p
                            (snd (generateReply w d p (snd (analyzeEmailForSpam w p calls))))))
                | Inr None \<Rightarrow>
                    (Inl TypeError, snd (sendReply w env (email_id (email p)) html p
                            (snd (generateReply w d p (snd (analyzeEmailForSpam w p calls))))))
                | Inr (Some receipt) \<Rightarrow>
                    (Inr \<lparr>success = True, emailId = email_id (email p), detectionResult = d,
                          reply = html, sendResult = receipt\<rparr>,
                     snd (sendReply w env (email_id (email p)) html p
                            (snd (generateReply w d p (snd (analyzeEmailForSpam w p calls)))))))))"
  by (simp add: scanAndReply_def split: prod.splits sum.splits option.splits)

lemma scanAndReply_success:
  assumes "fst (scanAndReply w env p calls) = Inr agg"
  shows "success agg" and "emailId agg = email_id (email p)"
    and "new_Inbound w (INBOUND_API_KEY env) = None"
    and "\<nexists>err. error (inbound_reply w (email_id (email p)) (reply_request env (reply agg)))
                = Some err \<and> error_truthy w err"
    and "data (inbound_reply w (email_id (email p)) (reply_request env (reply agg)))
           = Some (sendResult agg)"
  using assms
  by (auto simp: scanAndReply_unfold sendReply_result split: sum.splits option.splits if_splits)

lemma or_string_cases:
  "or_string None d = d" "or_string (Some []) d = d" "a \<noteq> [] \<Longrightarrow> or_string (Some a) d = a"
  by (simp_all add: or_string_def)

lemma reply_textBody_long: "reply_textBody (long_payload rest) = replicate 2000 0x61 @ rest"
  by (simp add: reply_textBody_def long_payload_def or_string_def or_option_def
      string_truthy_def opt_chain_def)

lemma sample_classified:
  "fst (analyzeEmailForSpam sample_world sample_payload []) =
     Inr \<lparr>dd_detectionResult =
            \<lparr>isSpam = True, confidence = Finite (92 / 100),
             reasoning = asc ''The sender fails SPF'',
             references = [asc ''SPF fail'', asc ''urgency language'']\<rparr>,
          dd_emailId = asc ''em_1''\<rparr>"
  by (simp add: analyzeEmailForSpam_def Let_def generateObject_def sample_world_def
      sample_object_def spamDetectionSchema_def z_property_def z_boolean_def z_number_def
      z_min_def z_max_def z_string_def z_array_def sample_payload_def asc_def)

lemma sample_composed:
  "fst (generateReply sample_world d sample_payload calls) =
     Inr (asc ''<html><body>This email is UNSAFE.'' @ footer @ asc ''</body></html>'')"
proof -
  have i: "indexOf (asc ''<html><body>This email is UNSAFE.</body></html>'') body_close = Some 33"
    by (simp add: indexOf_def body_close_def asc_def)
  show ?thesis
    by (simp add: generateReply_def Let_def sample_world_def appendFooter_at_body[OF i])
       (simp add: asc_def)
qed

lemma sample_run:
  "fst (scanAndReply sample_world sample_env sample_payload []) =
     Inr \<lparr>success = True, emailId = asc ''em_1'',
          detectionResult =
            \<lparr>dd_detectionResult =
               \<lparr>isSpam = True, confidence = Finite (92 / 100),
                reasoning = asc ''The sender fails SPF'',
                references = [asc ''SPF fail'', asc ''urgency language'']\<rparr>,
             dd_emailId = asc ''em_1''\<rparr>,
          reply = asc ''<html><body>This email is UNSAFE.'' @ footer @ asc ''</body></html>'',
          sendResult = sample_receipt\<rparr>"
  by (simp add: scanAndReply_unfold sample_classified sample_composed sendReply_result)
     (simp add: sample_world_def sample_payload_def sample_env_def string_truthy_def asc_def)

lemma failing_run:
  "fst (analyzeEmailForSpam failing_world sample_payload []) = Inr sample_detection"
  "fst (generateReply failing_world d sample_payload calls) =
     Inr (asc ''<html><body>This email is UNSAFE.'' @ footer @ asc ''</body></html>'')"
  using sample_classified sample_composed[of d calls]
  by (simp_all add: analyzeEmailForSpam_result generateReply_result failing_world_def
      sample_detection_def analysis_prompt_def reply_prompt_def sample_world_def)

lemma empty_error_run:
  "fst (analyzeEmailForSpam empty_error_world sample_payload []) = Inr sample_detection"
  "fst (generateReply empty_error_world d sample_payload calls) =
     Inr (asc ''<html><body>This email is UNSAFE.'' @ footer @ asc ''</body></html>'')"
  using sample_classified sample_composed[of d calls]
  by (simp_all add: analyzeEmailForSpam_result generateReply_result empty_error_world_def
      sample_detection_def analysis_prompt_def reply_prompt_def sample_world_def)

text \<open>
  A provider whose error value is the empty string: the step does not raise and
  returns no receipt, and the orchestrator then throws at \<open>sendResult.id\<close>.
\<close>

lemma empty_error_not_raised:
  "fst (sendReply empty_error_world sample_env (asc ''em_1'') (asc ''<p>Hi</p>'') sample_payload [])
     = Inr None"
  "fst (scanAndReply empty_error_world sample_env sample_payload []) = Inl TypeError"
  by (simp_all add: scanAndReply_unfold empty_error_run sendReply_result)
     (simp_all add: empty_error_world_def sample_world_def sample_env_def string_truthy_def
      asc_def)

lemma ingress_behaviour:
  "POST start (Inl e) = (server_error_response, [])"
  "POST start (Inr JNull) = (server_error_response, [])"
  "payload \<noteq> JNull \<Longrightarrow>
     \<not> truthy (projr (get_property payload ''event'')) \<or>
     \<not> truthy (projr (get_property payload ''email'')) \<Longrightarrow>
     POST start (Inr payload) = (invalid_payload_response, [])"
  "payload \<noteq> JNull \<Longrightarrow>
     truthy (projr (get_property payload ''event'')) \<Longrightarrow>
     truthy (projr (get_property payload ''email'')) \<Longrightarrow>
     POST start (Inr payload) =
       (case start payload of
          None \<Rightarrow> (started_response, [payload])
        | Some e \<Rightarrow> (server_error_response, [payload]))"
  by (cases payload; auto simp: POST_def POST_try_def split: option.splits)+

subsection \<open>The claims\<close>

text \<open>
  C1. The footer post-processing of the Composer inserts the footer once into the
  model's text and changes nothing else: the result is the text up to an index, the
  footer, and the text from that index on. The index is that of the first occurrence
  of \<open></body>\<close> when the text has one, else that of the first occurrence of
  \<open></html>\<close> when the text has one, else the end of the text.
\<close>

theorem footer_inserted_once:
  "\<exists>i \<le> length text.
      appendFooter text = take i text @ footer @ drop i text \<and>
      (if sublist body_close text then first_occurrence_at body_close text i
       else if sublist html_close text then first_occurrence_at html_close text i
       else i = length text)"
proof (cases "includes_str text body_close")
  case True
  from insert_before_first[OF True closers_no_dollar(1)] True show ?thesis
    by (auto simp: appendFooter_def includes_str_iff_sublist first_occurrence_at_def)
next
  case nb: False
  show ?thesis
  proof (cases "includes_str text html_close")
    case True
    from insert_before_first[OF True closers_no_dollar(2)] True nb show ?thesis
      by (auto simp: appendFooter_def includes_str_iff_sublist first_occurrence_at_def)
  next
    case False
    with nb show ?thesis by (auto simp: appendFooter_def includes_str_iff_sublist)
  qed
qed

theorem footer_inserted_once_witness:
  "appendFooter (asc ''Hi</body></html>'') = asc ''Hi'' @ footer @ asc ''</body></html>''"
proof -
  let ?t = "asc ''Hi</body></html>''"
  have s: "sublist body_close ?t"
    by (simp add: includes_str_iff_sublist[symmetric] includes_str_def indexOf_def
        body_close_def asc_def)
  from footer_inserted_once[of ?t] s obtain i
    where r: "appendFooter ?t = take i ?t @ footer @ drop i ?t"
      and f: "first_occurrence_at body_close ?t i"
    by auto
  have p2: "prefix body_close (drop 2 ?t)" by (simp add: body_close_def asc_def)
  have n0: "\<not> prefix body_close (drop 0 ?t)" by (simp add: body_close_def asc_def)
  have n1: "\<not> prefix body_close (drop 1 ?t)" by (simp add: body_close_def asc_def)
  have "\<not> 2 < i" using f p2 by (auto simp: first_occurrence_at_def)
  moreover from f have pi: "prefix body_close (drop i ?t)" by (simp add: first_occurrence_at_def)
  have "i \<noteq> 0"
  proof
    assume "i = 0" with pi n0 show False by simp
  qed
  moreover have "i \<noteq> 1"
  proof
    assume "i = 1" with pi n1 show False by simp
  qed
  ultimately have "i = 2" by arith
  with r show ?thesis by (simp add: asc_def)
qed

text \<open>
  C2, as amended. The plain-text projection is the input with the tag-delimited
  substrings removed, then the five entities replaced one after the other in the order
  \<open>&nbsp;\<close>, \<open>&amp;\<close>, \<open>&lt;\<close>, \<open>&gt;\<close>, \<open>&quot;\<close>, and then trimmed of leading and
  trailing white space; the example of the specification yields
  \<open>Hi there & welcome\<close>.
\<close>

theorem plain_text_projection:
  "replyText_of html = trim (spec_plain_text html) \<and>
   replyText_of (asc ''Hi <b>there</b> &amp; welcome'') = asc ''Hi there & welcome''"
proof
  show "replyText_of html = trim (spec_plain_text html)" by (rule replyText_of_refines)
  show "replyText_of (asc ''Hi <b>there</b> &amp; welcome'') = asc ''Hi there & welcome''"
    by (simp add: replyText_of_def replace_all_def asc_def literal_def tag_regex_def trim_def
        is_white_space_def less_than_sign_def greater_than_sign_def dollar_def)
qed

theorem plain_text_projection_witness:
  "replyText_of (asc ''<i>Tom &amp; Jerry</i> '') =
     trim (spec_plain_text (asc ''<i>Tom &amp; Jerry</i> '')) \<and>
   trim (spec_plain_text (asc ''<i>Tom &amp; Jerry</i> '')) = asc ''Tom & Jerry''"
  using plain_text_projection[of "asc ''<i>Tom &amp; Jerry</i> ''"]
  by (simp add: spec_plain_text_def asc_def trim_def is_white_space_def less_than_sign_def
      greater_than_sign_def)

text \<open>
  C2 as stated fails: the projection of \<open>" a"\<close>, which has no tag and no entity, is
  \<open>"a"\<close> and not the unchanged input.
\<close>

theorem plain_text_projection_counterexample:
  "replyText_of (asc '' a'') = asc ''a'' \<and> spec_plain_text (asc '' a'') = asc '' a'' \<and>
   replyText_of (asc '' a'') \<noteq> spec_plain_text (asc '' a'')"
  by (simp add: replyText_of_def spec_plain_text_def replace_all_def asc_def literal_def
      tag_regex_def trim_def is_white_space_def less_than_sign_def greater_than_sign_def
      dollar_def)

text \<open>
  C3, as amended. The Delivery step raises when the construction of the provider's
  client throws, and then makes no reply call; it raises when the provider's response
  to the reply call has an error value that the runtime takes as true, and the message
  of the raised error then ends with the string conversion of that value; it raises in
  no case other than a throwing construction or a response with an error value. When
  the client is constructed and the response has no error value, the step returns the
  receipt of the response as it is. When the step raises, the orchestrator ends with
  the same exception, and an aggregate result exists only with the receipt of the
  provider's response.
\<close>

theorem delivery_raises_on_provider_error:
  "(\<forall>e. new_Inbound w (INBOUND_API_KEY env) = Some e \<longrightarrow>
        sendReply w env eid html p calls = (Inl e, calls)) \<and>
   (new_Inbound w (INBOUND_API_KEY env) = None \<longrightarrow>
      (\<forall>err. error (inbound_reply w eid (reply_request env html)) = Some err \<and>
             error_truthy w err \<longrightarrow>
         sendReply w env eid html p calls =
           (Inl (Error (asc ''Failed to send reply: '' @ error_to_string w err)),
            calls @ [ReplyCall eid (reply_request env html)])) \<and>
      (error (inbound_reply w eid (reply_request env html)) = None \<longrightarrow>
         sendReply w env eid html p calls =
           (Inr (data (inbound_reply w eid (reply_request env html))),
            calls @ [ReplyCall eid (reply_request env html)]))) \<and>
   (\<forall>x. fst (sendReply w env eid html p calls) = Inl x \<longrightarrow>
        new_Inbound w (INBOUND_API_KEY env) = Some x \<or>
        (\<exists>err. error (inbound_reply w eid (reply_request env html)) = Some err \<and>
               x = Error (asc ''Failed to send reply: '' @ error_to_string w err))) \<and>
   (\<forall>d replyHtml x.
        fst (analyzeEmailForSpam w p calls) = Inr d \<and>
        fst (generateReply w d p (snd (analyzeEmailForSpam w p calls))) = Inr replyHtml \<and>
        fst (sendReply w env (email_id (email p)) replyHtml p
               (snd (generateReply w d p (snd (analyzeEmailForSpam w p calls))))) = Inl x
        \<longrightarrow> fst (scanAndReply w env p calls) = Inl x) \<and>
   (\<forall>agg. fst (scanAndReply w env p calls) = Inr agg \<longrightarrow>
      success agg \<and>
      new_Inbound w (INBOUND_API_KEY env) = None \<and>
      (\<nexists>err. error (inbound_reply w (email_id (email p)) (reply_request env (reply agg)))
                = Some err \<and> error_truthy w err) \<and>
      data (inbound_reply w (email_id (email p)) (reply_request env (reply agg)))
        = Some (sendResult agg))"
proof (intro conjI allI impI)
  fix e assume "new_Inbound w (INBOUND_API_KEY env) = Some e"
  then show "sendReply w env eid html p calls = (Inl e, calls)"
    by (simp add: sendReply_def)
next
  fix err
  assume "new_Inbound w (INBOUND_API_KEY env) = None"
    and "error (inbound_reply w eid (reply_request env html)) = Some err \<and> error_truthy w err"
  then show "sendReply w env eid html p calls =
           (Inl (Error (asc ''Failed to send reply: '' @ error_to_string w err)),
            calls @ [ReplyCall eid (reply_request env html)])"
    by (simp add: sendReply_def Let_def)
next
  assume "new_Inbound w (INBOUND_API_KEY env) = None"
    and "error (inbound_reply w eid (reply_request env html)) = None"
  then show "sendReply w env eid html p calls =
           (Inr (data (inbound_reply w eid (reply_request env html))),
            calls @ [ReplyCall eid (reply_request env html)])"
    by (simp add: sendReply_def Let_def)
next
  fix x assume "fst (sendReply w env eid html p calls) = Inl x"
  then show "new_Inbound w (INBOUND_API_KEY env) = Some x \<or>
        (\<exists>err. error (inbound_reply w eid (reply_request env html)) = Some err \<and>
               x = Error (asc ''Failed to send reply: '' @ error_to_string w err))"
    by (auto simp: sendReply_result split: option.splits if_splits)
next
  fix d replyHtml x
  assume "fst (analyzeEmailForSpam w p calls) = Inr d \<and>
        fst (generateReply w d p (snd (analyzeEmailForSpam w p calls))) = Inr replyHtml \<and>
        fst (sendReply w env (email_id (email p)) replyHtml p
               (snd (generateReply w d p (snd (analyzeEmailForSpam w p calls))))) = Inl x"
  then show "fst (scanAndReply w env p calls) = Inl x"
    by (simp add: scanAndReply_unfold)
next
  fix agg assume a: "fst (scanAndReply w env p calls) = Inr agg"
  show "success agg" by (rule scanAndReply_success(1)[OF a])
  show "new_Inbound w (INBOUND_API_KEY env) = None" by (rule scanAndReply_success(3)[OF a])
  show "\<nexists>err. error (inbound_reply w (email_id (email p)) (reply_request env (reply agg)))
                = Some err \<and> error_truthy w err"
    by (rule scanAndReply_success(4)[OF a])
  show "data (inbound_reply w (email_id (email p)) (reply_request env (reply agg)))
        = Some (sendResult agg)"
    by (rule scanAndReply_success(5)[OF a])
qed

theorem delivery_raises_on_provider_error_witness:
  "sendReply sample_world keyless_env (asc ''em_1'') (asc ''<p>Hi</p>'') sample_payload []
     = (Inl (Error (asc ''API key is required'')), []) \<and>
   fst (sendReply failing_world sample_env (asc ''em_1'') (asc ''<p>Hi</p>'') sample_payload [])
     = Inl (Error (asc ''Failed to send reply: Domain not verified'')) \<and>
   fst (sendReply sample_world sample_env (asc ''em_1'') (asc ''<p>Hi</p>'') sample_payload [])
     = Inr (Some sample_receipt) \<and>
   fst (scanAndReply failing_world sample_env sample_payload [])
     = Inl (Error (asc ''Failed to send reply: Domain not verified'')) \<and>
   (\<exists>agg. fst (scanAndReply sample_world sample_env sample_payload []) = Inr agg \<and>
      success agg \<and>
      data (inbound_reply sample_world (email_id (email sample_payload))
              (reply_request sample_env (reply agg))) = Some (sendResult agg))"
proof (intro conjI)
  let ?eid = "asc ''em_1''" and ?h = "asc ''<p>Hi</p>''"
  let ?msg = "Error (asc ''Failed to send reply: Domain not verified'')"
  have k: "new_Inbound sample_world (INBOUND_API_KEY keyless_env) =
             Some (Error (asc ''API key is required''))"
    by (simp add: sample_world_def keyless_env_def string_truthy_def)
  with delivery_raises_on_provider_error[of sample_world keyless_env ?eid ?h sample_payload "[]"]
  show "sendReply sample_world keyless_env ?eid ?h sample_payload []
     = (Inl (Error (asc ''API key is required'')), [])"
    by blast
  have c: "new_Inbound failing_world (INBOUND_API_KEY sample_env) = None"
    by (simp add: failing_world_def sample_world_def sample_env_def string_truthy_def asc_def)
  have e: "error (inbound_reply failing_world eid' (reply_request sample_env h')) =
             Some (asc ''Domain not verified'') \<and>
           error_truthy failing_world (asc ''Domain not verified'')" for eid' h'
    by (simp add: failing_world_def sample_world_def asc_def)
  have m: "Error (asc ''Failed to send reply: '' @
             error_to_string failing_world (asc ''Domain not verified'')) = ?msg"
    by (simp add: failing_world_def sample_world_def asc_def)
  from delivery_raises_on_provider_error[of failing_world sample_env ?eid ?h sample_payload "[]"]
    c e[of ?eid ?h]
  have "sendReply failing_world sample_env ?eid ?h sample_payload [] =
          (Inl (Error (asc ''Failed to send reply: '' @
             error_to_string failing_world (asc ''Domain not verified''))),
           [] @ [ReplyCall ?eid (reply_request sample_env ?h)])"
    by blast
  then show "fst (sendReply failing_world sample_env ?eid ?h sample_payload []) = Inl ?msg"
    by (simp add: m)
  have c': "new_Inbound sample_world (INBOUND_API_KEY sample_env) = None"
    by (simp add: sample_world_def sample_env_def string_truthy_def asc_def)
  have n: "error (inbound_reply sample_world ?eid (reply_request sample_env ?h)) = None"
    by (simp add: sample_world_def)
  from delivery_raises_on_provider_error[of sample_world sample_env ?eid ?h sample_payload "[]"]
    c' n
  have "sendReply sample_world sample_env ?eid ?h sample_payload [] =
          (Inr (data (inbound_reply sample_world ?eid (reply_request sample_env ?h))),
           [] @ [ReplyCall ?eid (reply_request sample_env ?h)])"
    by blast
  then show "fst (sendReply sample_world sample_env ?eid ?h sample_payload [])
     = Inr (Some sample_receipt)"
    by (simp add: sample_world_def)
  let ?r = "asc ''<html><body>This email is UNSAFE.'' @ footer @ asc ''</body></html>''"
  have s: "fst (sendReply failing_world sample_env (email_id (email sample_payload)) ?r
             sample_payload
             (snd (generateReply failing_world sample_detection sample_payload
                    (snd (analyzeEmailForSpam failing_world sample_payload []))))) = Inl ?msg"
    using c e by (simp add: sendReply_result m)
  from delivery_raises_on_provider_error[of failing_world sample_env ?eid ?h sample_payload "[]"]
    failing_run(1) failing_run(2)[of sample_detection] s
  show "fst (scanAndReply failing_world sample_env sample_payload []) = Inl ?msg"
    by blast
  from delivery_raises_on_provider_error[of sample_world sample_env ?eid ?h sample_payload "[]"]
    sample_run
  show "\<exists>agg. fst (scanAndReply sample_world sample_env sample_payload []) = Inr agg \<and>
      success agg \<and>
      data (inbound_reply sample_world (email_id (email sample_payload))
              (reply_request sample_env (reply agg))) = Some (sendResult agg)"
    by blast
qed

text \<open>
  C3 as stated fails in both directions. With the API key unset the step raises
  though the provider's reply call, which is not made, would return no error; and with
  a provider whose error value is the empty string the step does not raise.
\<close>

theorem delivery_raises_counterexample:
  "sendReply sample_world keyless_env (asc ''em_1'') (asc ''<p>Hi</p>'') sample_payload []
     = (Inl (Error (asc ''API key is required'')), []) \<and>
   error (inbound_reply sample_world (asc ''em_1'') (reply_request keyless_env (asc ''<p>Hi</p>'')))
     = None \<and>
   error (inbound_reply empty_error_world (asc ''em_1'')
            (reply_request sample_env (asc ''<p>Hi</p>''))) = Some [] \<and>
   sendReply empty_error_world sample_env (asc ''em_1'') (asc ''<p>Hi</p>'') sample_payload []
     = (Inr None, [ReplyCall (asc ''em_1'') (reply_request sample_env (asc ''<p>Hi</p>''))])"
  by (simp add: sendReply_def Let_def empty_error_world_def sample_world_def keyless_env_def
      sample_env_def string_truthy_def asc_def)

text \<open>
  C4. The orchestrator calls the Classifier, then the Composer with the detection data
  and the payload, then Delivery with the message id of the payload, the composed HTML
  and the payload, and the external calls are logged in this order. An exception of a
  step is the outcome of the orchestrator, with no later step called; Delivery makes its
  reply call unless the construction of its client throws. The orchestrator returns
  only the aggregate record with \<open>success\<close> set, the message id, the detection
  data, the reply and the receipt.
\<close>

theorem orchestrator_runs_steps_in_order:
  "(\<exists>e. fst (analyzeEmailForSpam w p calls) = Inl e \<and>
        scanAndReply w env p calls =
          (Inl e, calls @ [GenerateObjectCall (analysis_prompt w (extract_email_data p))]))
   \<or> (\<exists>d e. fst (analyzeEmailForSpam w p calls) = Inr d \<and>
        fst (generateReply w d p (snd (analyzeEmailForSpam w p calls))) = Inl e \<and>
        scanAndReply w env p calls =
          (Inl e, calls @ [GenerateObjectCall (analysis_prompt w (extract_email_data p)),
                           GenerateTextCall (reply_prompt w d p)]))
   \<or> (\<exists>d html. fst (analyzeEmailForSpam w p calls) = Inr d \<and>
        fst (generateReply w d p (snd (analyzeEmailForSpam w p calls))) = Inr html \<and>
        snd (scanAndReply w env p calls) =
          (case new_Inbound w (INBOUND_API_KEY env) of
             None \<Rightarrow>
               calls @ [GenerateObjectCall (analysis_prompt w (extract_email_data p)),
                        GenerateTextCall (reply_prompt w d p),
                        ReplyCall (email_id (email p)) (reply_request env html)]
           | Some e \<Rightarrow>
               calls @ [GenerateObjectCall (analysis_prompt w (extract_email_data p)),
                        GenerateTextCall (reply_prompt w d p)]) \<and>
        fst (scanAndReply w env p calls) =
          (case fst (sendReply w env (email_id (email p)) html p
                      (snd (generateReply w d p (snd (analyzeEmailForSpam w p calls))))) of
             Inl e \<Rightarrow> Inl e
           | Inr None \<Rightarrow> Inl TypeError
           | Inr (Some receipt) \<Rightarrow>
               Inr \<lparr>success = True, emailId = email_id (email p), detectionResult = d,
                    reply = html, sendResult = receipt\<rparr>))"
proof (cases "fst (analyzeEmailForSpam w p calls)")
  case (Inl e)
  then show ?thesis
    by (simp add: scanAndReply_unfold analyzeEmailForSpam_calls)
next
  case (Inr d)
  note d = this
  show ?thesis
  proof (cases "fst (generateReply w d p (snd (analyzeEmailForSpam w p calls)))")
    case (Inl e)
    with d show ?thesis
      by (simp add: scanAndReply_unfold analyzeEmailForSpam_calls generateReply_calls)
  next
    case (Inr html)
    with d show ?thesis
      by (simp add: scanAndReply_unfold analyzeEmailForSpam_calls generateReply_calls
          sendReply_calls split: sum.splits option.splits)
  qed
qed

theorem orchestrator_runs_steps_in_order_witness:
  "\<exists>prompt1 prompt2 params.
     scanAndReply sample_world sample_env sample_payload [] =
       (Inr \<lparr>success = True, emailId = asc ''em_1'',
             detectionResult =
               \<lparr>dd_detectionResult =
                  \<lparr>isSpam = True, confidence = Finite (92 / 100),
                   reasoning = asc ''The sender fails SPF'',
                   references = [asc ''SPF fail'', asc ''urgency language'']\<rparr>,
                dd_emailId = asc ''em_1''\<rparr>,
             reply = asc ''<html><body>This email is UNSAFE.'' @ footer @ asc ''</body></html>'',
             sendResult = sample_receipt\<rparr>,
        [GenerateObjectCall prompt1, GenerateTextCall prompt2, ReplyCall (asc ''em_1'') params])"
proof -
  have k: "new_Inbound sample_world (INBOUND_API_KEY sample_env) = None"
    by (simp add: sample_world_def sample_env_def string_truthy_def asc_def)
  from orchestrator_runs_steps_in_order[of sample_world sample_payload "[]" sample_env]
  obtain d html where
    "snd (scanAndReply sample_world sample_env sample_payload []) =
       [] @ [GenerateObjectCall (analysis_prompt sample_world (extract_email_data sample_payload)),
             GenerateTextCall (reply_prompt sample_world d sample_payload),
             ReplyCall (email_id (email sample_payload)) (reply_request sample_env html)]"
    by (auto simp: sample_classified sample_composed k)
  then have "snd (scanAndReply sample_world sample_env sample_payload []) =
       [GenerateObjectCall (analysis_prompt sample_world (extract_email_data sample_payload)),
        GenerateTextCall (reply_prompt sample_world d sample_payload),
        ReplyCall (asc ''em_1'') (reply_request sample_env html)]"
    by (simp add: sample_payload_def)
  with sample_run show ?thesis by (metis prod.collapse)
qed

text \<open>
  C5. A detection result that the Classifier step returns is the decoding of a model
  output that is an object with a boolean \<open>isSpam\<close>, a finite number \<open>confidence\<close>
  between 0 and 1 inclusive, a string \<open>reasoning\<close> and an array of strings
  \<open>references\<close>. A model output that the schema rejects makes the step raise, and the
  Composer's model call is made only after the Classifier has returned such a result.
\<close>

theorem classifier_result_conforms:
  "(\<forall>d. fst (analyzeEmailForSpam w p calls) = Inr d \<longrightarrow>
      (\<exists>props b c r refs.
         object_model w (analysis_prompt w (extract_email_data p)) = Inr (JObject props) \<and>
         map_of props (asc ''isSpam'') = Some (JBool b) \<and>
         map_of props (asc ''confidence'') = Some (JNumber (Finite c)) \<and> 0 \<le> c \<and> c \<le> 1 \<and>
         map_of props (asc ''reasoning'') = Some (JString r) \<and>
         map_of props (asc ''references'') = Some (JArray (map JString refs)) \<and>
         dd_detectionResult d =
           \<lparr>isSpam = b, confidence = Finite c, reasoning = r, references = refs\<rparr>)) \<and>
   (\<forall>j. object_model w (analysis_prompt w (extract_email_data p)) = Inr j \<and>
        spamDetectionSchema j = None \<longrightarrow>
        fst (analyzeEmailForSpam w p calls) = Inl NoObjectGenerated) \<and>
   (\<forall>prompt. GenerateTextCall prompt \<in> set (snd (scanAndReply w env p [])) \<longrightarrow>
      (\<exists>d c. fst (analyzeEmailForSpam w p []) = Inr d \<and>
             confidence (dd_detectionResult d) = Finite c \<and> 0 \<le> c \<and> c \<le> 1))"
proof (intro conjI allI impI)
  fix d assume a: "fst (analyzeEmailForSpam w p calls) = Inr d"
  then obtain j where j: "object_model w (analysis_prompt w (extract_email_data p)) = Inr j"
    and s: "spamDetectionSchema j = Some (dd_detectionResult d)"
    by (auto simp: analyzeEmailForSpam_result split: sum.splits option.splits)
  from schema_conforms[OF s] j
  show "\<exists>props b c r refs.
         object_model w (analysis_prompt w (extract_email_data p)) = Inr (JObject props) \<and>
         map_of props (asc ''isSpam'') = Some (JBool b) \<and>
         map_of props (asc ''confidence'') = Some (JNumber (Finite c)) \<and> 0 \<le> c \<and> c \<le> 1 \<and>
         map_of props (asc ''reasoning'') = Some (JString r) \<and>
         map_of props (asc ''references'') = Some (JArray (map JString refs)) \<and>
         dd_detectionResult d =
           \<lparr>isSpam = b, confidence = Finite c, reasoning = r, references = refs\<rparr>"
    by blast
next
  fix j assume "object_model w (analysis_prompt w (extract_email_data p)) = Inr j \<and>
        spamDetectionSchema j = None"
  then show "fst (analyzeEmailForSpam w p calls) = Inl NoObjectGenerated"
    by (simp add: analyzeEmailForSpam_result)
next
  fix prompt assume t: "GenerateTextCall prompt \<in> set (snd (scanAndReply w env p []))"
  show "\<exists>d c. fst (analyzeEmailForSpam w p []) = Inr d \<and>
             confidence (dd_detectionResult d) = Finite c \<and> 0 \<le> c \<and> c \<le> 1"
  proof (cases "fst (analyzeEmailForSpam w p [])")
    case (Inl e)
    with t show ?thesis by (simp add: scanAndReply_unfold analyzeEmailForSpam_calls)
  next
    case (Inr d)
    then obtain j where "spamDetectionSchema j = Some (dd_detectionResult d)"
      by (auto simp: analyzeEmailForSpam_result split: sum.splits option.splits)
    from schema_conforms[OF this] Inr show ?thesis by auto
  qed
qed

theorem classifier_result_conforms_witness:
  "\<exists>d. fst (analyzeEmailForSpam sample_world sample_payload []) = Inr d \<and>
       confidence (dd_detectionResult d) = Finite (92 / 100) \<and>
       (0::real) \<le> 92 / 100 \<and> (92 / 100 :: real) \<le> 1"
proof -
  from classifier_result_conforms[of sample_world sample_payload "[]" sample_env] sample_classified
  obtain c where "confidence \<lparr>isSpam = True, confidence = Finite (92 / 100),
             reasoning = asc ''The sender fails SPF'',
             references = [asc ''SPF fail'', asc ''urgency language'']\<rparr> = Finite c"
     and "0 \<le> c" and "c \<le> 1"
    by fastforce
  then show ?thesis by (simp add: sample_classified)
qed

text \<open>
  C6, at the failing input. A request whose body is the JSON text \<open>null\<close> has a parsed
  body without the event designator and without the email object. The handler answers
  it with the server error of status 500, not with the client error of status 400; the
  workflow is not scheduled.
\<close>

theorem ingress_null_body:
  "POST start (Inr JNull) = (server_error_response, []) \<and>
   status server_error_response = 500 \<and>
   status invalid_payload_response = 400 \<and>
   get_property JNull ''event'' = Inl TypeError"
  by (simp add: POST_def POST_try_def server_error_response_def invalid_payload_response_def
      json_response_def)

text \<open>
  C7. Each of the seven values that the Classifier step extracts is the field of the
  payload when that is present and the empty string, or for the header mapping the
  empty mapping, when the field or the object that holds it is absent; the prompt of
  the model call is put together from these values.
\<close>

theorem classifier_extraction_defaults:
  "ed_rawEmail (extract_email_data p) =
     (case parsedData (email p) of None \<Rightarrow> []
      | Some pd \<Rightarrow> (case raw pd of None \<Rightarrow> [] | Some v \<Rightarrow> v)) \<and>
   ed_headers (extract_email_data p) =
     (case parsedData (email p) of None \<Rightarrow> []
      | Some pd \<Rightarrow> (case headers pd of None \<Rightarrow> [] | Some v \<Rightarrow> v)) \<and>
   ed_htmlBody (extract_email_data p) =
     (case parsedData (email p) of None \<Rightarrow> []
      | Some pd \<Rightarrow> (case htmlBody pd of None \<Rightarrow> [] | Some v \<Rightarrow> v)) \<and>
   ed_textBody (extract_email_data p) =
     (case parsedData (email p) of None \<Rightarrow> []
      | Some pd \<Rightarrow> (case textBody pd of None \<Rightarrow> [] | Some v \<Rightarrow> v)) \<and>
   ed_subject (extract_email_data p) =
     (case subject (email p) of None \<Rightarrow> [] | Some v \<Rightarrow> v) \<and>
   ed_from (extract_email_data p) =
     (case email_from (email p) of None \<Rightarrow> []
      | Some a \<Rightarrow> (case addr_text a of None \<Rightarrow> [] | Some v \<Rightarrow> v)) \<and>
   ed_to (extract_email_data p) =
     (case email_to (email p) of None \<Rightarrow> []
      | Some a \<Rightarrow> (case addr_text a of None \<Rightarrow> [] | Some v \<Rightarrow> v)) \<and>
   snd (analyzeEmailForSpam w p calls) =
     calls @ [GenerateObjectCall
       (analysis_prompt_1 @ ed_from (extract_email_data p)
        @ analysis_prompt_2 @ ed_to (extract_email_data p)
        @ analysis_prompt_3 @ ed_subject (extract_email_data p)
        @ analysis_prompt_4 @ json_stringify w (ed_headers (extract_email_data p))
        @ analysis_prompt_5 @ ed_rawEmail (extract_email_data p)
        @ analysis_prompt_6)]"
  by (simp add: extract_email_data_def opt_chain_def or_string_def or_object_def
      analyzeEmailForSpam_calls analysis_prompt_def split: option.splits)

theorem classifier_extraction_defaults_witness:
  "ed_rawEmail (extract_email_data sample_payload) = [] \<and>
   ed_headers (extract_email_data sample_payload) = [] \<and>
   ed_htmlBody (extract_email_data sample_payload) = [] \<and>
   ed_textBody (extract_email_data sample_payload) = asc ''Please verify your account'' \<and>
   ed_subject (extract_email_data sample_payload) = asc ''Fwd: your account'' \<and>
   ed_from (extract_email_data sample_payload) = asc ''user@example.com'' \<and>
   ed_to (extract_email_data sample_payload) = []"
  using classifier_extraction_defaults[of sample_payload sample_world "[]"]
  by (simp add: sample_payload_def)

text \<open>
  C8, as amended. The sending address is the environment override when that is set to
  a non-empty string, and the fixed default address \<open>susdev@inbound.delivery\<close> when it
  is unset or set to the empty string; the reply call of the step, which it makes
  unless the construction of its client throws, carries this address and no other.
\<close>

theorem from_address_override_or_default:
  "(\<forall>a. INBOUND_REPLY_FROM env = Some a \<and> a \<noteq> [] \<longrightarrow>
        reply_from (reply_request env html) = a) \<and>
   (INBOUND_REPLY_FROM env = None \<or> INBOUND_REPLY_FROM env = Some [] \<longrightarrow>
        reply_from (reply_request env html) = asc ''susdev@inbound.delivery'') \<and>
   snd (sendReply w env eid html p calls) =
     (case new_Inbound w (INBOUND_API_KEY env) of
        None \<Rightarrow> calls @ [ReplyCall eid (reply_request env html)]
      | Some e \<Rightarrow> calls)"
  by (auto simp: reply_request_def fromAddress_of_def or_string_cases default_from_def
      sendReply_calls split: option.splits)

theorem from_address_override_or_default_witness:
  "reply_from (reply_request override_env []) = asc ''security@example.com'' \<and>
   reply_from (reply_request sample_env []) = asc ''susdev@inbound.delivery''"
proof
  have "INBOUND_REPLY_FROM override_env = Some (asc ''security@example.com'') \<and>
        asc ''security@example.com'' \<noteq> []"
    by (simp add: override_env_def asc_def)
  with from_address_override_or_default[of override_env "[]"]
  show "reply_from (reply_request override_env []) = asc ''security@example.com''" by blast
  have "INBOUND_REPLY_FROM sample_env = None" by (simp add: sample_env_def)
  with from_address_override_or_default[of sample_env "[]"]
  show "reply_from (reply_request sample_env []) = asc ''susdev@inbound.delivery''" by blast
qed

text \<open>
  C8 as stated fails: with the override set to the empty string, the sending address
  is the default address and not the override.
\<close>

theorem from_address_counterexample:
  "INBOUND_REPLY_FROM empty_override_env = Some [] \<and>
   reply_from (reply_request empty_override_env []) = asc ''susdev@inbound.delivery'' \<and>
   reply_from (reply_request empty_override_env []) \<noteq> []"
  by (simp add: empty_override_env_def reply_request_def fromAddress_of_def or_string_def
      default_from_def asc_def)

text \<open>
  C9. The text that the Delivery step submits to the provider, in the reply call that
  it makes unless the construction of its client throws, is the stripped and
  unescaped reply with leading and trailing white space removed: unless it is empty, it
  neither begins nor ends with white space, and for some replies it differs from the
  stripped and unescaped reply.
\<close>

theorem submitted_text_trimmed:
  "snd (sendReply w env eid replyHtml payload calls) =
     (case new_Inbound w (INBOUND_API_KEY env) of
        None \<Rightarrow> calls @ [ReplyCall eid (reply_request env replyHtml)]
      | Some e \<Rightarrow> calls) \<and>
   reply_text (reply_request env replyHtml) = trim (spec_plain_text replyHtml) \<and>
   (reply_text (reply_request env replyHtml) \<noteq> [] \<longrightarrow>
      \<not> is_white_space (hd (reply_text (reply_request env replyHtml))) \<and>
      \<not> is_white_space (last (reply_text (reply_request env replyHtml)))) \<and>
   (\<exists>html. reply_text (reply_request env html) \<noteq> spec_plain_text html)"
proof (intro conjI impI)
  show "snd (sendReply w env eid replyHtml payload calls) =
     (case new_Inbound w (INBOUND_API_KEY env) of
        None \<Rightarrow> calls @ [ReplyCall eid (reply_request env replyHtml)]
      | Some e \<Rightarrow> calls)"
    by (rule sendReply_calls)
  show eq: "reply_text (reply_request env replyHtml) = trim (spec_plain_text replyHtml)"
    by (simp add: reply_request_def replyText_of_refines)
  assume "reply_text (reply_request env replyHtml) \<noteq> []"
  then have ne: "trim (spec_plain_text replyHtml) \<noteq> []" by (simp add: eq)
  from trim_ends[OF ne]
  show "\<not> is_white_space (hd (reply_text (reply_request env replyHtml)))"
    and "\<not> is_white_space (last (reply_text (reply_request env replyHtml)))"
    by (simp_all add: eq)
next
  have "reply_text (reply_request env (asc ''Hi<br> '')) \<noteq> spec_plain_text (asc ''Hi<br> '')"
    by (simp add: reply_request_def replyText_of_def spec_plain_text_def replace_all_def
        asc_def literal_def tag_regex_def trim_def is_white_space_def less_than_sign_def
        greater_than_sign_def dollar_def)
  then show "\<exists>html. reply_text (reply_request env html) \<noteq> spec_plain_text html" by blast
qed

theorem submitted_text_trimmed_witness:
  "reply_text (reply_request sample_env (asc ''<p> Hi &amp; bye </p> '')) = asc ''Hi & bye'' \<and>
   \<not> is_white_space (hd (asc ''Hi & bye'')) \<and> \<not> is_white_space (last (asc ''Hi & bye''))"
proof -
  let ?env = "sample_env"
  let ?h = "asc ''<p> Hi &amp; bye </p> ''"
  have v: "reply_text (reply_request ?env ?h) = asc ''Hi & bye''"
    by (simp add: reply_request_def replyText_of_def replace_all_def
        asc_def literal_def tag_regex_def trim_def is_white_space_def less_than_sign_def
        greater_than_sign_def dollar_def)
  have ne: "reply_text (reply_request ?env ?h) \<noteq> []" unfolding v by (simp add: asc_def)
  from submitted_text_trimmed[of sample_world ?env "[]" ?h sample_payload "[]"] ne
  have "\<not> is_white_space (hd (reply_text (reply_request ?env ?h))) \<and>
        \<not> is_white_space (last (reply_text (reply_request ?env ?h)))"
    by blast
  with v show ?thesis by simp
qed

text \<open>
  C10. The prompt of the Composer's model call holds the first 2000 code units of the
  extracted text body, followed by the marker \<open>... (truncated)\<close> on a new line when
  the body is longer; payloads that agree on sender, subject and these first 2000 code
  units, and on whether the body is longer, give the same prompt, so no code unit
  behind the first 2000 reaches the reply model.
\<close>

theorem composer_prompt_truncates_body:
  "snd (generateReply w d p calls) = calls @ [GenerateTextCall (reply_prompt w d p)] \<and>
   reply_prompt w d p =
     reply_prompt_1
     @ (case email_from (email p) of None \<Rightarrow> []
        | Some a \<Rightarrow> (case addr_text a of None \<Rightarrow> [] | Some v \<Rightarrow> v))
     @ reply_prompt_2
     @ (case subject (email p) of None \<Rightarrow> [] | Some v \<Rightarrow> v)
     @ reply_prompt_3
     @ take 2000 (reply_textBody p)
     @ (if 2000 < length (reply_textBody p) then asc ''\<newline>... (truncated)'' else [])
     @ reply_prompt_4
     @ (if isSpam (dd_detectionResult d) then asc ''SPAM/MALICIOUS'' else asc ''LEGITIMATE'')
     @ reply_prompt_5
     @ percent_toFixed1 w (confidence (dd_detectionResult d))
     @ reply_prompt_6
     @ join (asc ''; '') (take 3 (references (dd_detectionResult d)))
     @ reply_prompt_7 \<and>
   (email_from (email p') = email_from (email p) \<and> subject (email p') = subject (email p) \<and>
    take 2000 (reply_textBody p') = take 2000 (reply_textBody p) \<and>
    (2000 < length (reply_textBody p') \<longleftrightarrow> 2000 < length (reply_textBody p))
    \<longrightarrow> reply_prompt w d p' = reply_prompt w d p)"
  by (simp add: generateReply_calls reply_prompt_def Let_def substring_def opt_chain_def
      or_string_def split: option.splits)

theorem composer_prompt_truncates_body_witness:
  "length (reply_textBody (long_payload (asc ''first ending''))) = 2012 \<and>
   reply_textBody (long_payload (asc ''first ending'')) \<noteq>
     reply_textBody (long_payload (asc ''other ending'')) \<and>
   reply_prompt sample_world sample_detection (long_payload (asc ''first ending'')) =
     reply_prompt sample_world sample_detection (long_payload (asc ''other ending''))"
proof -
  have "email_from (email (long_payload (asc ''first ending''))) =
        email_from (email (long_payload (asc ''other ending''))) \<and>
        subject (email (long_payload (asc ''first ending''))) =
        subject (email (long_payload (asc ''other ending''))) \<and>
        take 2000 (reply_textBody (long_payload (asc ''first ending''))) =
        take 2000 (reply_textBody (long_payload (asc ''other ending''))) \<and>
        (2000 < length (reply_textBody (long_payload (asc ''first ending''))) \<longleftrightarrow>
         2000 < length (reply_textBody (long_payload (asc ''other ending''))))"
    by (simp add: reply_textBody_long) (simp add: long_payload_def asc_def)
  with composer_prompt_truncates_body[of sample_world sample_detection "long_payload (asc ''other ending'')"
        "[]" "long_payload (asc ''first ending'')"]
  have "reply_prompt sample_world sample_detection (long_payload (asc ''first ending'')) =
     reply_prompt sample_world sample_detection (long_payload (asc ''other ending''))"
    by blast
  then show ?thesis by (simp add: reply_textBody_long) (simp add: asc_def)
qed


end
